theory Spec2Isabelle
  imports Complex_Main "HOL-Library.Sublist" "HOL-Library.Multiset"
begin

section \<open>Python strings\<close>

text \<open>
  Python \<^verbatim>\<open>str\<close> values are modelled as \<^typ>\<open>string\<close>: a character is a code
  point below 256, so the texts of the model are the Latin-1 texts. The operations below
  are Python's on such texts. \<^verbatim>\<open>sub in s\<close> is the contiguous-substring test.
\<close>

fun str_in :: "string \<Rightarrow> string \<Rightarrow> bool" where
  "str_in sub [] = (sub = [])"
| "str_in sub (c # s) = (prefix sub (c # s) \<or> str_in sub s)"

text \<open>
  The characters \<^verbatim>\<open>str.strip()\<close> removes: the twelve code points below 256 that
  \<^verbatim>\<open>str.isspace\<close> accepts, the next-line and no-break-space characters among them.
\<close>

definition is_space :: "char \<Rightarrow> bool" where
  "is_space c \<longleftrightarrow> c \<in> set [CHR '' '', CHR 0x09, CHR 0x0A, CHR 0x0B, CHR 0x0C, CHR 0x0D,
                           CHR 0x1C, CHR 0x1D, CHR 0x1E, CHR 0x1F, CHR 0x85, CHR 0xA0]"

definition lstrip :: "string \<Rightarrow> string" where
  "lstrip s = dropWhile is_space s"

definition rstrip :: "string \<Rightarrow> string" where
  "rstrip s = rev (dropWhile is_space (rev s))"

definition strip :: "string \<Rightarrow> string" where
  "strip s = rstrip (lstrip s)"

text \<open>\<^verbatim>\<open>s.replace('%', '')\<close>\<close>

definition remove_percent :: "string \<Rightarrow> string" where
  "remove_percent s = filter (\<lambda>c. c \<noteq> CHR ''%'') s"

text \<open>
  \<^verbatim>\<open>str.lower()\<close>: the capital letters below 256 are the ASCII ones and the
  accented ones from code point 192 to 222 (215, the multiplication sign, is none); each
  has its small letter 32 code points above.
\<close>

definition latin_capitals :: string where
  "latin_capitals =
     [CHR 0xC0, CHR 0xC1, CHR 0xC2, CHR 0xC3, CHR 0xC4, CHR 0xC5, CHR 0xC6, CHR 0xC7,
      CHR 0xC8, CHR 0xC9, CHR 0xCA, CHR 0xCB, CHR 0xCC, CHR 0xCD, CHR 0xCE, CHR 0xCF,
      CHR 0xD0, CHR 0xD1, CHR 0xD2, CHR 0xD3, CHR 0xD4, CHR 0xD5, CHR 0xD6, CHR 0xD8,
      CHR 0xD9, CHR 0xDA, CHR 0xDB, CHR 0xDC, CHR 0xDD, CHR 0xDE]"

definition latin_smalls :: string where
  "latin_smalls =
     [CHR 0xE0, CHR 0xE1, CHR 0xE2, CHR 0xE3, CHR 0xE4, CHR 0xE5, CHR 0xE6, CHR 0xE7,
      CHR 0xE8, CHR 0xE9, CHR 0xEA, CHR 0xEB, CHR 0xEC, CHR 0xED, CHR 0xEE, CHR 0xEF,
      CHR 0xF0, CHR 0xF1, CHR 0xF2, CHR 0xF3, CHR 0xF4, CHR 0xF5, CHR 0xF6, CHR 0xF8,
      CHR 0xF9, CHR 0xFA, CHR 0xFB, CHR 0xFC, CHR 0xFD, CHR 0xFE]"

definition lower_char :: "char \<Rightarrow> char" where
  "lower_char c =
     (case map_of (zip (''ABCDEFGHIJKLMNOPQRSTUVWXYZ'' @ latin_capitals)
                       (''abcdefghijklmnopqrstuvwxyz'' @ latin_smalls)) c of
        None \<Rightarrow> c
      | Some l \<Rightarrow> l)"

definition lower :: "string \<Rightarrow> string" where
  "lower s = map lower_char s"

text \<open>\<^verbatim>\<open>s.split(sep)\<close> for a one-character separator: always at least one piece.\<close>

fun split_on :: "char \<Rightarrow> string \<Rightarrow> string list" where
  "split_on sep [] = [[]]"
| "split_on sep (c # s) =
     (if c = sep then [] # split_on sep s
      else (case split_on sep s of
              [] \<Rightarrow> [[c]]
            | p # ps \<Rightarrow> (c # p) # ps))"

text \<open>
  \<^verbatim>\<open>s.split(sep, 1)\<close> for a string that contains \<^verbatim>\<open>sep\<close>: the part before the first
  separator and the rest after it.
\<close>

definition split_once :: "char \<Rightarrow> string \<Rightarrow> string \<times> string" where
  "split_once sep s = (takeWhile (\<lambda>c. c \<noteq> sep) s, tl (dropWhile (\<lambda>c. c \<noteq> sep) s))"

section \<open>Parsed documents\<close>

text \<open>
  A BeautifulSoup tree. An element carries its tag name, its \<^verbatim>\<open>class\<close> attribute
  as the list of class names (the parser stores it split), its other attributes as
  name/value pairs, and its children. The document object itself is an element node;
  searches look at its descendants, in document order.
\<close>

datatype node = Text string | Element string "string list" "(string \<times> string) list" "node list"

fun tag_name :: "node \<Rightarrow> string option" where
  "tag_name (Text s) = None"
| "tag_name (Element t cs as ch) = Some t"

fun classes :: "node \<Rightarrow> string list" where
  "classes (Text s) = []"
| "classes (Element t cs as ch) = cs"

fun attr :: "node \<Rightarrow> string \<Rightarrow> string option" where
  "attr (Text s) a = None"
| "attr (Element t cs as ch) a = map_of as a"

fun descendants :: "node \<Rightarrow> node list" where
  "descendants (Text s) = []"
| "descendants (Element t cs as ch) = concat (map (\<lambda>c. c # descendants c) ch)"

text \<open>\<^verbatim>\<open>tag.text\<close> / \<^verbatim>\<open>tag.get_text()\<close>: all strings below the node, concatenated.\<close>

fun get_text :: "node \<Rightarrow> string" where
  "get_text (Text s) = s"
| "get_text (Element t cs as ch) = concat (map get_text ch)"

text \<open>\<^verbatim>\<open>doc.find_all(name)\<close>\<close>

definition find_all :: "string \<Rightarrow> node \<Rightarrow> node list" where
  "find_all name doc = filter (\<lambda>n. tag_name n = Some name) (descendants doc)"

text \<open>\<^verbatim>\<open>class_=[...]\<close>: the element has one of the listed class names.\<close>

definition has_class :: "string list \<Rightarrow> node \<Rightarrow> bool" where
  "has_class wanted n \<longleftrightarrow> (\<exists>c \<in> set (classes n). c \<in> set wanted)"

text \<open>\<^verbatim>\<open>doc.find_all(name, class_=wanted)\<close> and \<^verbatim>\<open>doc.find(name, class_=wanted)\<close>\<close>

definition find_all_class :: "string \<Rightarrow> string list \<Rightarrow> node \<Rightarrow> node list" where
  "find_all_class name wanted doc = filter (has_class wanted) (find_all name doc)"

definition find_class :: "string \<Rightarrow> string list \<Rightarrow> node \<Rightarrow> node option" where
  "find_class name wanted doc =
     (case find_all_class name wanted doc of [] \<Rightarrow> None | n # ns \<Rightarrow> Some n)"

section \<open>Statistics extraction\<close>

text \<open>
  The summary is the Python dict \<^verbatim>\<open>stats\<close>, a map from the six field names to numbers.
  Every field starts as the integer 0; a parsed score is a float, a parsed hand count an
  integer. The builtins \<^verbatim>\<open>float\<close> and \<^verbatim>\<open>int\<close> are parameters \<open>to_float\<close> and
  \<open>to_int\<close> of the model: \<open>None\<close> stands for the \<^verbatim>\<open>ValueError\<close> they raise on text
  that is not a number, and \<open>'f\<close> is the type of float values.
\<close>

datatype 'f pynum = PInt int | PFloat 'f

datatype exn = ValueError | TypeError | KeyError | RequestException

type_synonym 'f stats = "string \<rightharpoonup> 'f pynum"

definition initial_stats :: "'f stats" where
  "initial_stats =
     [''IMPs_Total'' \<mapsto> PInt 0, ''IMPs_Hands'' \<mapsto> PInt 0, ''IMPs_Average'' \<mapsto> PInt 0,
      ''MPs_Average'' \<mapsto> PInt 0, ''MPs_Hands'' \<mapsto> PInt 0, ''Total_Masterpoints'' \<mapsto> PInt 0]"

text \<open>
  A statement inside the \<^verbatim>\<open>try\<close> block either completes with the updated dict
  (\<open>Inr\<close>) or raises, leaving the dict as it was at that moment (\<open>Inl\<close>).
\<close>

type_synonym 'f outcome = "(exn \<times> 'f stats) + 'f stats"

definition and_then :: "'f outcome \<Rightarrow> ('f stats \<Rightarrow> 'f outcome) \<Rightarrow> 'f outcome" where
  "and_then m f = (case m of Inl x \<Rightarrow> Inl x | Inr s \<Rightarrow> f s)"

text \<open>
  \<^verbatim>\<open>if cell: stats[key] = conv(cell.text.strip())\<close>, where \<open>conv\<close> is the conversion
  applied to the stripped text.
\<close>

definition assign_cell ::
  "string \<Rightarrow> (string \<Rightarrow> 'f pynum option) \<Rightarrow> node option \<Rightarrow> 'f stats \<Rightarrow> 'f outcome" where
  "assign_cell key conv cell stats =
     (case cell of
        None \<Rightarrow> Inr stats
      | Some c \<Rightarrow>
          (case conv (strip (get_text c)) of
             None \<Rightarrow> Inl (ValueError, stats)
           | Some v \<Rightarrow> Inr (stats(key \<mapsto> v))))"

definition as_float :: "(string \<Rightarrow> 'f option) \<Rightarrow> string \<Rightarrow> 'f pynum option" where
  "as_float to_float s = map_option PFloat (to_float s)"

definition as_int :: "(string \<Rightarrow> int option) \<Rightarrow> string \<Rightarrow> 'f pynum option" where
  "as_int to_int s = map_option PInt (to_int s)"

text \<open>The first header cell's stripped text of a row that has both kinds of cells.\<close>

definition row_label :: "node \<Rightarrow> string option" where
  "row_label row =
     (if find_all ''th'' row = [] \<or> find_all ''td'' row = [] then None
      else Some (strip (get_text (hd (find_all ''th'' row)))))"

text \<open>One iteration of the loop over the rows.\<close>

definition process_row ::
  "(string \<Rightarrow> 'f option) \<Rightarrow> (string \<Rightarrow> int option) \<Rightarrow> 'f stats \<Rightarrow> node \<Rightarrow> 'f outcome" where
  "process_row to_float to_int stats row =
     (case row_label row of
        None \<Rightarrow> Inr stats
      | Some label \<Rightarrow>
          if str_in ''IMPs Total'' label then
            and_then
              (assign_cell ''IMPs_Total'' (as_float to_float)
                 (find_class ''td'' [''score'', ''negscore''] row) stats)
              (assign_cell ''IMPs_Hands'' (as_int to_int)
                 (find_class ''td'' [''numhands''] row))
          else if str_in ''IMPs Average'' label then
            assign_cell ''IMPs_Average'' (as_float to_float)
              (find_class ''td'' [''score'', ''negscore''] row) stats
          else if str_in ''MPs Average'' label then
            and_then
              (assign_cell ''MPs_Average'' (as_float to_float \<circ> remove_percent)
                 (find_class ''td'' [''score''] row) stats)
              (assign_cell ''MPs_Hands'' (as_int to_int)
                 (find_class ''td'' [''numhands''] row))
          else if str_in ''Total Masterpoints'' label then
            assign_cell ''Total_Masterpoints'' (as_float to_float)
              (find_class ''td'' [''score''] row) stats
          else Inr stats)"

text \<open>The loop: the first exception leaves it.\<close>

fun process_rows ::
  "(string \<Rightarrow> 'f option) \<Rightarrow> (string \<Rightarrow> int option) \<Rightarrow> 'f stats \<Rightarrow> node list \<Rightarrow> 'f outcome" where
  "process_rows to_float to_int stats [] = Inr stats"
| "process_rows to_float to_int stats (row # rows) =
     (case process_row to_float to_int stats row of
        Inl x \<Rightarrow> Inl x
      | Inr stats' \<Rightarrow> process_rows to_float to_int stats' rows)"

definition total_rows :: "node \<Rightarrow> node list" where
  "total_rows soup = find_all_class ''tr'' [''odd'', ''even''] soup"

text \<open>
  The handler of the \<^verbatim>\<open>try\<close> block only logs; the dict is returned as the loop
  left it.
\<close>

definition extract_player_statistics ::
  "(string \<Rightarrow> 'f option) \<Rightarrow> (string \<Rightarrow> int option) \<Rightarrow> node \<Rightarrow> 'f stats" where
  "extract_player_statistics to_float to_int soup =
     (case process_rows to_float to_int initial_stats (total_rows soup) of
        Inl (e, stats) \<Rightarrow> stats
      | Inr stats \<Rightarrow> stats)"

section \<open>Dictionaries that keep insertion order\<close>

text \<open>
  Form data, headers and cookie dicts are Python dicts whose order is visible (it is the
  order of the fields in a request body), so they are association lists: storing under
  a key that is present replaces the value in place, a new key goes to the end.
\<close>

type_synonym ('k, 'v) dict = "('k \<times> 'v) list"

fun dict_set :: "'k \<Rightarrow> 'v \<Rightarrow> ('k, 'v) dict \<Rightarrow> ('k, 'v) dict" where
  "dict_set k v [] = [(k, v)]"
| "dict_set k v ((k', v') # d) = (if k' = k then (k', v) # d else (k', v') # dict_set k v d)"

text \<open>\<^verbatim>\<open>d.update(other)\<close>\<close>

definition dict_update :: "('k, 'v) dict \<Rightarrow> ('k, 'v) dict \<Rightarrow> ('k, 'v) dict" where
  "dict_update d other = fold (\<lambda>(k, v) acc. dict_set k v acc) other d"

text \<open>\<^verbatim>\<open>k in d\<close>\<close>

definition dict_has :: "'k \<Rightarrow> ('k, 'v) dict \<Rightarrow> bool" where
  "dict_has k d \<longleftrightarrow> k \<in> fst ` set d"

section \<open>The HTTP session\<close>

text \<open>
  A request as the session sends it: method, URL, the session's default headers
  overridden by the headers given with the call, and the form fields of the body.
  Timeouts, redirect following and the proxy are properties of the transport and are
  left to the server model.
\<close>

datatype http_method = GET | POST

record request =
  req_method :: http_method
  req_url :: string
  req_headers :: "(string, string) dict"
  req_data :: "(string, string) dict"

record response =
  resp_url :: string
  resp_status :: nat
  resp_text :: string

text \<open>
  Messages shown through Streamlit or written to the logger. A message that
  interpolates the text of an exception or the keys of a dict carries its fixed part only.
\<close>

datatype event =
    St_info string | St_warning string | St_error string | St_success string
  | St_expander string | Log_info string | Log_warning string | Log_error string

text \<open>
  The state the operations thread through their calls: the session's default headers,
  every request sent through the session so far, and the messages emitted. The cookie
  jar is not a separate component: what the remote side answers may depend on the whole
  history of requests.
\<close>

record world =
  sess_headers :: "(string, string) dict"
  sent :: "request list"
  events :: "event list"

text \<open>
  The remote side and the network: given the requests sent so far, the last one being
  the current request, the reply is a response or a raised exception.
\<close>

type_synonym server = "request list \<Rightarrow> exn + response"

definition emit :: "event \<Rightarrow> world \<Rightarrow> world" where
  "emit e w = w\<lparr>events := events w @ [e]\<rparr>"

text \<open>\<^verbatim>\<open>session.headers.update(hs)\<close>\<close>

definition update_headers :: "(string, string) dict \<Rightarrow> world \<Rightarrow> world" where
  "update_headers hs w = w\<lparr>sess_headers := dict_update (sess_headers w) hs\<rparr>"

text \<open>
  The body that \<^verbatim>\<open>requests\<close> encodes from the dict given as \<^verbatim>\<open>data\<close>, whose
  values are strings or \<^verbatim>\<open>None\<close> (\<open>None\<close> here): a field whose value is
  \<^verbatim>\<open>None\<close> is left out.
\<close>

fun encode_form :: "(string, string option) dict \<Rightarrow> (string, string) dict" where
  "encode_form [] = []"
| "encode_form ((k, None) # form) = encode_form form"
| "encode_form ((k, Some v) # form) = (k, v) # encode_form form"

text \<open>\<^verbatim>\<open>session.get(url, headers=hs, ...)\<close> and \<^verbatim>\<open>session.post(url, data=form, ...)\<close>\<close>

definition send ::
  "server \<Rightarrow> http_method \<Rightarrow> string \<Rightarrow> (string, string) dict \<Rightarrow> (string, string option) dict \<Rightarrow>
     world \<Rightarrow> (exn + response) \<times> world" where
  "send srv m url hs form w =
     (let rq = \<lparr>req_method = m, req_url = url,
                 req_headers = dict_update (sess_headers w) hs,
                 req_data = encode_form form\<rparr>;
          history = sent w @ [rq]
      in (srv history, w\<lparr>sent := history\<rparr>))"

section \<open>Timezone handshake\<close>

text \<open>\<^verbatim>\<open>str(n)\<close> for an integer.\<close>

fun str_nat :: "nat \<Rightarrow> string" where
  "str_nat n =
     (if n < 10 then [''0123456789'' ! n]
      else str_nat (n div 10) @ [''0123456789'' ! (n mod 10)])"

declare str_nat.simps [simp del]

definition str_int :: "int \<Rightarrow> string" where
  "str_int i = (if i < 0 then CHR ''-'' # str_nat (nat (- i)) else str_nat (nat i))"

text \<open>\<^verbatim>\<open>int(x)\<close> on a number: the fraction is cut off, towards zero.\<close>

definition py_int :: "rat \<Rightarrow> int" where
  "py_int x = (if 0 \<le> x then \<lfloor>x\<rfloor> else \<lceil>x\<rceil>)"

text \<open>
  The local UTC offset comes from the clock and the timezone of the machine; it is the
  input \<open>utc_offset\<close>, a whole number of seconds (Python builds it from the C library's
  \<^verbatim>\<open>tm_gmtoff\<close>). \<^verbatim>\<open>datetime.now().astimezone()\<close> makes a timezone of it, which
  raises \<^verbatim>\<open>ValueError\<close> unless the offset is strictly between minus and plus 24
  hours. \<^verbatim>\<open>total_seconds() / 60\<close> is a float division; its operands are integers of
  magnitude below 86400, so the quotient is either exact or at least 1/60 away from the
  next integer, and the rounding of the division never changes what \<^verbatim>\<open>int\<close> returns.
  The model therefore divides exactly.
\<close>

definition get_local_timezone_offset :: "int \<Rightarrow> exn + int" where
  "get_local_timezone_offset utc_offset =
     (if - 86400 < utc_offset \<and> utc_offset < 86400
      then Inr (py_int (of_int utc_offset / 60))
      else Inl ValueError)"

definition landing_url :: string where
  "landing_url = ''https://www.bridgebase.com/myhands/index.php''"

definition tz_url :: string where
  "tz_url = ''https://www.bridgebase.com/myhands/index.php?&from_login=1''"

definition alt_url :: "int \<Rightarrow> string" where
  "alt_url offset = ''https://www.bridgebase.com/myhands/index.php?offset='' @ str_int offset"

text \<open>
  The alternative after a POST reply without the logout marker. An exception raised by
  the GET is caught by the handler of the enclosing \<^verbatim>\<open>try\<close>, as is one raised by
  the POST or by the computation of the offset.
\<close>

definition timezone_alternative :: "server \<Rightarrow> int \<Rightarrow> world \<Rightarrow> bool \<times> world" where
  "timezone_alternative srv offset w =
     (case send srv GET (alt_url offset) [] [] w of
        (Inl e, w1) \<Rightarrow> (False, emit (Log_error ''Error handling timezone redirect'') w1)
      | (Inr alt_response, w1) \<Rightarrow>
          if str_in ''logout.php'' (resp_text alt_response)
          then (True, emit (Log_info
                  ''Successfully handled timezone redirect via alternative URL'') w1)
          else (False, emit (Log_warning ''Failed to handle timezone redirect'') w1))"

text \<open>The handshake once the offset is known.\<close>

definition timezone_submit :: "server \<Rightarrow> int \<Rightarrow> world \<Rightarrow> bool \<times> world" where
  "timezone_submit srv offset w =
     (let w1 = emit (Log_info (''Using timezone offset: '' @ str_int offset @ '' minutes'')) w;
          tz_data = [(''offset'', Some (str_int offset))];
          w2 = update_headers
                 [(''Content-Type'', ''application/x-www-form-urlencoded''),
                  (''Referer'', ''https://www.bridgebase.com/myhands/index.php'')] w1
      in case send srv POST tz_url [] tz_data w2 of
           (Inl e, w3) \<Rightarrow> (False, emit (Log_error ''Error handling timezone redirect'') w3)
         | (Inr response, w3) \<Rightarrow>
             if str_in ''logout.php'' (resp_text response)
             then (True, emit (Log_info ''Successfully handled timezone redirect'') w3)
             else timezone_alternative srv offset w3)"

definition handle_timezone_redirect :: "server \<Rightarrow> int \<Rightarrow> world \<Rightarrow> bool \<times> world" where
  "handle_timezone_redirect srv utc_offset w =
     (case get_local_timezone_offset utc_offset of
        Inl e \<Rightarrow> (False, emit (Log_error ''Error handling timezone redirect'') w)
      | Inr offset \<Rightarrow> timezone_submit srv offset w)"

section \<open>Locating the results table\<close>

text \<open>
  The CSS selectors the code uses have the forms \<^verbatim>\<open>tag.class\<close> and \<^verbatim>\<open>tag#id\<close>.
  \<^verbatim>\<open>soup.select_one(selector)\<close> is the first matching element in document order.
\<close>

datatype selector = Tag_class string string | Tag_id string string

fun matches :: "selector \<Rightarrow> node \<Rightarrow> bool" where
  "matches (Tag_class t c) n = (tag_name n = Some t \<and> c \<in> set (classes n))"
| "matches (Tag_id t i) n = (tag_name n = Some t \<and> attr n ''id'' = Some i)"

definition select_one :: "node \<Rightarrow> selector \<Rightarrow> node option" where
  "select_one soup sel = List.find (matches sel) (descendants soup)"

definition table_selectors :: "selector list" where
  "table_selectors =
     [Tag_class ''table'' ''body'', Tag_id ''table'' ''hand_results'',
      Tag_class ''table'' ''hands'', Tag_class ''table'' ''handlist'']"

text \<open>The loop over the selectors: it stops at the first one that selects an element.\<close>

fun try_selectors :: "node \<Rightarrow> selector list \<Rightarrow> node option" where
  "try_selectors soup [] = None"
| "try_selectors soup (sel # sels) =
     (case select_one soup sel of
        Some table \<Rightarrow> Some table
      | None \<Rightarrow> try_selectors soup sels)"

text \<open>The test of the generic scan on one table.\<close>

definition hand_record_like :: "node \<Rightarrow> bool" where
  "hand_record_like potential_table \<longleftrightarrow>
     find_all ''tr'' potential_table \<noteq> [] \<and> length (find_all ''tr'' potential_table) > 1 \<and>
     find_all ''th'' potential_table \<noteq> [] \<and>
     (\<exists>h \<in> set (find_all ''th'' potential_table).
        get_text h \<noteq> [] \<and> str_in ''date'' (lower (get_text h)))"

definition generic_scan :: "node \<Rightarrow> node option" where
  "generic_scan soup = List.find hand_record_like (find_all ''table'' soup)"

definition locate_table :: "node \<Rightarrow> node option" where
  "locate_table soup =
     (case try_selectors soup table_selectors of
        Some table \<Rightarrow> Some table
      | None \<Rightarrow> generic_scan soup)"

section \<open>Fetching a results page\<close>

text \<open>
  \<open>html_parser\<close> stands for \<^verbatim>\<open>BeautifulSoup(text, 'html.parser')\<close>. The function
  returns \<^verbatim>\<open>(soup, table)\<close> or \<^verbatim>\<open>(None, None)\<close>; the latter is \<open>None\<close> here.
  The pauses between the requests have no effect on the result and are left out.
\<close>

definition unless_silent :: "bool \<Rightarrow> event \<Rightarrow> world \<Rightarrow> world" where
  "unless_silent silent e w = (if silent then w else emit e w)"

text \<open>The handler of the \<^verbatim>\<open>try\<close> block around the whole body.\<close>

definition scrape_failed :: "bool \<Rightarrow> world \<Rightarrow> (node \<times> node) option \<times> world" where
  "scrape_failed silent w =
     (None, unless_silent silent (St_error ''Error retrieving data'')
              (emit (Log_error ''Scraping error'') w))"

definition data_headers :: "(string, string) dict" where
  "data_headers =
     [(''Referer'', ''https://www.bridgebase.com/myhands/index.php''),
      (''Sec-Fetch-Dest'', ''document''),
      (''Sec-Fetch-Mode'', ''navigate''),
      (''Sec-Fetch-Site'', ''same-origin''),
      (''Sec-Fetch-User'', ''?1'')]"

text \<open>From the no-hands check to the end, on the response that is finally examined.\<close>

definition scrape_parse ::
  "(string \<Rightarrow> node) \<Rightarrow> bool \<Rightarrow> response \<Rightarrow> world \<Rightarrow> (node \<times> node) option \<times> world" where
  "scrape_parse html_parser silent response w =
     (if str_in ''You have no saved hands'' (resp_text response)
      then (None, emit (Log_info ''No hands found'') w)
      else
        (let soup = html_parser (resp_text response)
         in case locate_table soup of
              Some table \<Rightarrow> (Some (soup, table), w)
            | None \<Rightarrow>
                (None, unless_silent silent (St_expander ''Raw Response'')
                         (emit (Log_warning ''No table found'') w))))"

text \<open>The data request and the checks of its response.\<close>

definition scrape_data ::
  "server \<Rightarrow> (string \<Rightarrow> node) \<Rightarrow> int \<Rightarrow> string \<Rightarrow> bool \<Rightarrow> world \<Rightarrow>
     (node \<times> node) option \<times> world" where
  "scrape_data srv html_parser utc_offset url silent w =
     (let w1 = unless_silent silent (St_info ''Retrieving data from BBO...'')
                 (emit (Log_info (''Fetching: '' @ url)) w)
      in case send srv GET url data_headers [] w1 of
           (Inl e, w2) \<Rightarrow> scrape_failed silent w2
         | (Inr response, w2) \<Rightarrow>
             if str_in ''login.php'' (resp_url response)
             then (None, emit (St_error ''Session expired during data retrieval'')
                           (emit (Log_warning ''Session expired'') w2))
             else if str_in ''Javascript support is needed'' (resp_text response)
             then
               (let w3 = unless_silent silent
                           (St_warning ''Hit JavaScript requirement - trying to handle timezone...'')
                           w2;
                    w4 = snd (handle_timezone_redirect srv utc_offset w3)
                in case send srv GET url data_headers [] w4 of
                     (Inl e, w5) \<Rightarrow> scrape_failed silent w5
                   | (Inr response2, w5) \<Rightarrow> scrape_parse html_parser silent response2 w5)
             else scrape_parse html_parser silent response w2)"

definition scrape_bbo_hands ::
  "server \<Rightarrow> (string \<Rightarrow> node) \<Rightarrow> int \<Rightarrow> string \<Rightarrow> bool \<Rightarrow> world \<Rightarrow>
     (node \<times> node) option \<times> world" where
  "scrape_bbo_hands srv html_parser utc_offset url silent w =
     (case send srv GET landing_url [] [] w of
        (Inl e, w1) \<Rightarrow> scrape_failed silent w1
      | (Inr refresh_resp, w1) \<Rightarrow>
          if str_in ''login.php'' (resp_url refresh_resp)
          then (None, emit (St_error ''Session has expired. Please login again.'') w1)
          else scrape_data srv html_parser utc_offset url silent w1)"

section \<open>Login\<close>

text \<open>\<^verbatim>\<open>doc.find_all(name, attribute=value)\<close> and \<^verbatim>\<open>doc.find(name, attribute=value)\<close>\<close>

definition find_all_attr :: "string \<Rightarrow> string \<Rightarrow> string \<Rightarrow> node \<Rightarrow> node list" where
  "find_all_attr name a v doc = filter (\<lambda>n. attr n a = Some v) (find_all name doc)"

definition find_attr :: "string \<Rightarrow> string \<Rightarrow> string \<Rightarrow> node \<Rightarrow> node option" where
  "find_attr name a v doc = (case find_all_attr name a v doc of [] \<Rightarrow> None | n # ns \<Rightarrow> Some n)"

text \<open>
  One hidden input: stored under its name unless the name is missing or empty. The
  value is \<open>None\<close> when the input has no \<^verbatim>\<open>value\<close> attribute.
\<close>

definition add_hidden_field ::
  "node \<Rightarrow> (string, string option) dict \<Rightarrow> (string, string option) dict" where
  "add_hidden_field input_field hidden_fields =
     (case attr input_field ''name'' of
        None \<Rightarrow> hidden_fields
      | Some name \<Rightarrow>
          if name = [] then hidden_fields
          else dict_set name (attr input_field ''value'') hidden_fields)"

text \<open>
  The hidden inputs the loop runs over: those of the first form with
  \<^verbatim>\<open>method="post"\<close>, none when there is no such form.
\<close>

definition hidden_inputs :: "node \<Rightarrow> node list" where
  "hidden_inputs soup =
     (case find_attr ''form'' ''method'' ''post'' soup of
        None \<Rightarrow> []
      | Some form \<Rightarrow> find_all_attr ''input'' ''type'' ''hidden'' form)"

definition discover_hidden_fields :: "node \<Rightarrow> (string, string option) dict" where
  "discover_hidden_fields soup = fold add_hidden_field (hidden_inputs soup) []"

text \<open>The two fields that are added when the form did not have them.\<close>

definition add_target_field :: "(string, string option) dict \<Rightarrow> (string, string option) dict" where
  "add_target_field hidden_fields =
     (if \<not> dict_has ''t'' hidden_fields
      then dict_set ''t'' (Some ''/myhands/index.php?'') hidden_fields
      else hidden_fields)"

definition add_count_field :: "(string, string option) dict \<Rightarrow> (string, string option) dict" where
  "add_count_field hidden_fields =
     (if \<not> dict_has ''count'' hidden_fields
      then dict_set ''count'' (Some ''1'') hidden_fields
      else hidden_fields)"

definition add_required_fields :: "(string, string option) dict \<Rightarrow> (string, string option) dict" where
  "add_required_fields hidden_fields = add_count_field (add_target_field hidden_fields)"

definition login_data ::
  "string \<Rightarrow> string \<Rightarrow> (string, string option) dict \<Rightarrow> (string, string option) dict" where
  "login_data username password hidden_fields =
     dict_update
       [(''username'', Some username), (''password'', Some password),
        (''submit'', Some ''Login''), (''keep'', Some ''on'')]
       hidden_fields"

text \<open>The form fields the login request carries, from the parsed login page.\<close>

definition login_form_data :: "string \<Rightarrow> string \<Rightarrow> node \<Rightarrow> (string, string option) dict" where
  "login_form_data username password soup =
     login_data username password (add_required_fields (discover_hidden_fields soup))"

definition browser_headers :: "(string, string) dict" where
  "browser_headers =
     [(''User-Agent'', ''Mozilla/5.0 (Windows NT 10.0; Win64; x64) AppleWebKit/537.36 (KHTML, like Gecko) Chrome/120.0.0.0 Safari/537.36''),
      (''Accept'', ''text/html,application/xhtml+xml,application/xml;q=0.9,image/avif,image/webp,image/apng,*/*;q=0.8,application/signed-exchange;v=b3;q=0.7''),
      (''Accept-Language'', ''en-US,en;q=0.9''),
      (''Accept-Encoding'', ''gzip, deflate, br''),
      (''DNT'', ''1''),
      (''Connection'', ''keep-alive''),
      (''Upgrade-Insecure-Requests'', ''1''),
      (''Sec-Fetch-Dest'', ''document''),
      (''Sec-Fetch-Mode'', ''navigate''),
      (''Sec-Fetch-Site'', ''same-origin''),
      (''Sec-Fetch-User'', ''?1'')]"

definition home_url :: string where
  "home_url = ''https://www.bridgebase.com/myhands/''"

definition login_page_url :: string where
  "login_page_url = ''https://www.bridgebase.com/myhands/myhands_login.php''"

text \<open>The handler of the \<^verbatim>\<open>try\<close> block around the whole login.\<close>

definition login_error :: "world \<Rightarrow> bool \<times> world" where
  "login_error w = (False, emit (St_error ''Login error'') w)"

text \<open>
  The messages of the failure analysis. The values written into the expander (status
  code, final URL, length, submitted data, response snippet) are not modelled.
\<close>

definition failure_analysis :: "response \<Rightarrow> world \<Rightarrow> world" where
  "failure_analysis login_response w =
     (let w1 = emit (St_expander ''Login Failure Analysis'') w
      in if str_in ''Javascript support is needed'' (resp_text login_response)
         then emit (St_info ''Consider using Manual Cookies method instead'')
                (emit (St_error ''JavaScript required - session creation incomplete'') w1)
         else if suffix ''myhands_login.php'' (resp_url login_response)
         then emit (St_error ''Login failed - credentials rejected or form not submitted'') w1
         else if str_in ''Invalid username or password'' (resp_text login_response)
         then emit (St_error ''BBO rejected the credentials'') w1
         else w1)"

text \<open>After the login POST: the optional handshake, then the verification request.\<close>

definition login_verify :: "server \<Rightarrow> int \<Rightarrow> response \<Rightarrow> world \<Rightarrow> bool \<times> world" where
  "login_verify srv utc_offset login_response w =
     (let w1 =
            (if str_in ''Javascript support is needed for this page'' (resp_text login_response)
             then
               (case handle_timezone_redirect srv utc_offset
                       (emit (St_info ''Handling timezone redirect...'') w) of
                  (timezone_handled, w') \<Rightarrow>
                    if \<not> timezone_handled
                    then emit (St_warning ''Timezone handling unsuccessful, but continuing...'') w'
                    else w')
             else w)
      in case send srv GET landing_url [] [] w1 of
           (Inl e, w2) \<Rightarrow> login_error w2
         | (Inr test_response, w2) \<Rightarrow>
             if str_in ''logout.php'' (resp_text test_response)
             then (True, emit (St_success ''Login successful!'') w2)
             else (False, failure_analysis login_response w2))"

text \<open>The messages between parsing the login page and submitting the form.\<close>

definition log_hidden_field :: "node \<Rightarrow> world \<Rightarrow> world" where
  "log_hidden_field input_field w =
     (case attr input_field ''name'' of
        None \<Rightarrow> w
      | Some name \<Rightarrow>
          if name = [] then w
          else emit (Log_info
                 (''Found hidden field: '' @ name @ ''='' @
                    (case attr input_field ''value'' of None \<Rightarrow> ''None'' | Some s \<Rightarrow> s))) w)"

definition log_login_fields :: "node \<Rightarrow> world \<Rightarrow> world" where
  "log_login_fields soup w =
     (let w1 = fold log_hidden_field (hidden_inputs soup) w;
          w2 = (if \<not> dict_has ''t'' (discover_hidden_fields soup)
                then emit (Log_info ''Added required target parameter'') w1 else w1);
          w3 = (if \<not> dict_has ''count'' (add_target_field (discover_hidden_fields soup))
                then emit (Log_info ''Added required count parameter'') w2 else w2)
      in emit (Log_info ''Submitting form with fields'') (emit (St_info ''Authenticating...'') w3))"

text \<open>From the parsed login page to the end.\<close>

definition login_submit ::
  "server \<Rightarrow> int \<Rightarrow> string \<Rightarrow> string \<Rightarrow> node \<Rightarrow> world \<Rightarrow> bool \<times> world" where
  "login_submit srv utc_offset username password soup w =
     (let w5 = update_headers
                 [(''Content-Type'', ''application/x-www-form-urlencoded''),
                  (''Origin'', ''https://www.bridgebase.com''),
                  (''Referer'', login_page_url)] (log_login_fields soup w)
      in case send srv POST login_page_url [] (login_form_data username password soup) w5 of
           (Inl e, w6) \<Rightarrow> login_error w6
         | (Inr login_response, w6) \<Rightarrow> login_verify srv utc_offset login_response w6)"

text \<open>
  The whole login. \<open>w\<close> is the state with the newly created session. The result is
  \<open>True\<close> when the session is returned and \<open>False\<close> when \<^verbatim>\<open>None\<close> is.
\<close>

definition login_to_bbo ::
  "server \<Rightarrow> (string \<Rightarrow> node) \<Rightarrow> int \<Rightarrow> string \<Rightarrow> string \<Rightarrow> world \<Rightarrow> bool \<times> world" where
  "login_to_bbo srv html_parser utc_offset username password w =
     (let w1 = emit (St_info ''Initializing session...'') (update_headers browser_headers w)
      in case send srv GET home_url [] [] w1 of
           (Inl e, w2) \<Rightarrow> login_error w2
         | (Inr home_response, w2) \<Rightarrow>
             (let w3 = update_headers [(''Referer'', home_url)]
                         (emit (St_info ''Loading login form...'') w2)
              in case send srv GET login_page_url [] [] w3 of
                   (Inl e, w4) \<Rightarrow> login_error w4
                 | (Inr login_page_response, w4) \<Rightarrow>
                     login_submit srv utc_offset username password
                       (html_parser (resp_text login_page_response)) w4))"

section \<open>Cookie text\<close>

text \<open>
  The values \<^verbatim>\<open>json.loads\<close> produces. A float is a finite number or one of the three
  special values the decoder accepts; an object is a dict with string keys.
\<close>

datatype pyfloat = Finite rat | PosInf | NegInf | NaN

datatype json =
    JNull | JBool bool | JInt int | JFloat pyfloat | JStr string
  | JArr "json list" | JObj "(string \<times> json) list"

text \<open>\<^verbatim>\<open>c[key]\<close> for a string key: only a dict can be subscripted with a string.\<close>

fun subscript :: "json \<Rightarrow> string \<Rightarrow> exn + json" where
  "subscript (JObj kvs) key = (case map_of kvs key of None \<Rightarrow> Inl KeyError | Some v \<Rightarrow> Inr v)"
| "subscript c key = Inl TypeError"

text \<open>Lists and dicts cannot be dict keys.\<close>

fun hashable :: "json \<Rightarrow> bool" where
  "hashable (JArr xs) = False"
| "hashable (JObj kvs) = False"
| "hashable v = True"

text \<open>
  Equality of dict keys: numbers and booleans are compared by value
  (\<^verbatim>\<open>1 == 1.0 == True\<close>), everything else structurally.
\<close>

fun numeric_value :: "json \<Rightarrow> pyfloat option" where
  "numeric_value (JBool b) = Some (Finite (if b then 1 else 0))"
| "numeric_value (JInt i) = Some (Finite (of_int i))"
| "numeric_value (JFloat f) = Some f"
| "numeric_value v = None"

definition key_eq :: "json \<Rightarrow> json \<Rightarrow> bool" where
  "key_eq a b =
     (case (numeric_value a, numeric_value b) of
        (Some x, Some y) \<Rightarrow> x = y
      | (None, None) \<Rightarrow> a = b
      | _ \<Rightarrow> False)"

text \<open>\<^verbatim>\<open>d[k] = v\<close>: an equal key that is present keeps its place and its key object.\<close>

fun store :: "json \<Rightarrow> json \<Rightarrow> (json, json) dict \<Rightarrow> (json, json) dict" where
  "store k v [] = [(k, v)]"
| "store k v ((k', v') # d) = (if key_eq k' k then (k', v) # d else (k', v') # store k v d)"

text \<open>
  What \<^verbatim>\<open>parse_cookie_text\<close> returns: a dict it has built, or the decoded value as
  it is.
\<close>

datatype cookies = Dict "(json, json) dict" | Decoded json

text \<open>
  The dict comprehension \<^verbatim>\<open>{c['name']: c['value'] for c in cookies}\<close>, element by
  element, with the dict built so far.
\<close>

fun cookies_from_list :: "json list \<Rightarrow> (json, json) dict \<Rightarrow> exn + (json, json) dict" where
  "cookies_from_list [] d = Inr d"
| "cookies_from_list (c # cs) d =
     (case subscript c ''name'' of
        Inl e \<Rightarrow> Inl e
      | Inr k \<Rightarrow>
          (case subscript c ''value'' of
             Inl e \<Rightarrow> Inl e
           | Inr v \<Rightarrow> if hashable k then cookies_from_list cs (store k v d) else Inl TypeError))"

text \<open>
  The body of the \<^verbatim>\<open>try\<close> block. \<open>json_loads\<close> stands for \<^verbatim>\<open>json.loads\<close>, with
  \<open>None\<close> for the decoding error it raises.
\<close>

definition parse_structured :: "(string \<Rightarrow> json option) \<Rightarrow> string \<Rightarrow> exn + cookies" where
  "parse_structured json_loads cookie_text =
     (case json_loads cookie_text of
        None \<Rightarrow> Inl ValueError
      | Some (JArr cs) \<Rightarrow>
          (case cookies_from_list cs [] of Inl e \<Rightarrow> Inl e | Inr d \<Rightarrow> Inr (Dict d))
      | Some v \<Rightarrow> Inr (Decoded v))"

text \<open>The handler: one line of the text.\<close>

definition add_line :: "string \<Rightarrow> (json, json) dict \<Rightarrow> (json, json) dict" where
  "add_line line d =
     (if CHR ''='' \<in> set line
      then (case split_once CHR ''='' (strip line) of
              (name, val) \<Rightarrow> store (JStr name) (JStr val) d)
      else d)"

definition parse_lines :: "string \<Rightarrow> (json, json) dict" where
  "parse_lines cookie_text = fold add_line (split_on CHR 0x0A cookie_text) []"

definition parse_cookie_text :: "(string \<Rightarrow> json option) \<Rightarrow> string \<Rightarrow> cookies" where
  "parse_cookie_text json_loads cookie_text =
     (case parse_structured json_loads cookie_text of
        Inr result \<Rightarrow> result
      | Inl e \<Rightarrow> Dict (parse_lines cookie_text))"

section \<open>Notions used to state the properties\<close>

text \<open>The dict an outcome carries, whether or not an exception was raised.\<close>

definition outcome_stats :: "'f outcome \<Rightarrow> 'f stats" where
  "outcome_stats r = (case r of Inl (e, s) \<Rightarrow> s | Inr s \<Rightarrow> s)"

text \<open>A change of the dict applied to an outcome.\<close>

definition map_outcome :: "('f stats \<Rightarrow> 'f stats) \<Rightarrow> 'f outcome \<Rightarrow> 'f outcome" where
  "map_outcome g r = (case r of Inl (e, s) \<Rightarrow> Inl (e, g s) | Inr s \<Rightarrow> Inr (g s))"

text \<open>The six field names of the summary.\<close>

definition stat_keys :: "string set" where
  "stat_keys =
     {''IMPs_Total'', ''IMPs_Hands'', ''IMPs_Average'', ''MPs_Average'', ''MPs_Hands'',
      ''Total_Masterpoints''}"

text \<open>A label that contains one of the four aggregate labels.\<close>

definition known_label :: "string \<Rightarrow> bool" where
  "known_label label \<longleftrightarrow>
     str_in ''IMPs Total'' label \<or> str_in ''IMPs Average'' label \<or>
     str_in ''MPs Average'' label \<or> str_in ''Total Masterpoints'' label"

text \<open>
  A value cell whose conversion raises: the cell is there and its stripped text is
  rejected by the conversion.
\<close>

definition cell_raises :: "(string \<Rightarrow> 'a option) \<Rightarrow> node option \<Rightarrow> bool" where
  "cell_raises conv cell_opt \<longleftrightarrow>
     (case cell_opt of None \<Rightarrow> False | Some c \<Rightarrow> conv (strip (get_text c)) = None)"

text \<open>
  Whether processing a row raises, and the entries a row writes: both are read off
  \<^const>\<open>process_row\<close> run on the empty dict.
\<close>

definition row_raises ::
  "(string \<Rightarrow> 'f option) \<Rightarrow> (string \<Rightarrow> int option) \<Rightarrow> node \<Rightarrow> bool" where
  "row_raises to_float to_int row = isl (process_row to_float to_int Map.empty row)"

definition row_assigns ::
  "(string \<Rightarrow> 'f option) \<Rightarrow> (string \<Rightarrow> int option) \<Rightarrow> node \<Rightarrow> 'f stats" where
  "row_assigns to_float to_int row = outcome_stats (process_row to_float to_int Map.empty row)"

text \<open>The aggregate label a row carries: the first of the chain its label contains.\<close>

definition row_branch :: "node \<Rightarrow> string option" where
  "row_branch row =
     (case row_label row of
        None \<Rightarrow> None
      | Some label \<Rightarrow>
          if str_in ''IMPs Total'' label then Some ''IMPs Total''
          else if str_in ''IMPs Average'' label then Some ''IMPs Average''
          else if str_in ''MPs Average'' label then Some ''MPs Average''
          else if str_in ''Total Masterpoints'' label then Some ''Total Masterpoints''
          else None)"

text \<open>The fields that the branch of an aggregate label writes.\<close>

definition branch_fields :: "string option \<Rightarrow> string set" where
  "branch_fields b =
     (if b = Some ''IMPs Total'' then {''IMPs_Total'', ''IMPs_Hands''}
      else if b = Some ''IMPs Average'' then {''IMPs_Average''}
      else if b = Some ''MPs Average'' then {''MPs_Average'', ''MPs_Hands''}
      else if b = Some ''Total Masterpoints'' then {''Total_Masterpoints''}
      else {})"

text \<open>No two rows of the list carry the same aggregate label.\<close>

definition distinct_labels :: "node list \<Rightarrow> bool" where
  "distinct_labels rows = distinct (filter (\<lambda>b. b \<noteq> None) (map row_branch rows))"

text \<open>The request of the landing-page check, for a given state of the session.\<close>

definition precheck_request :: "world \<Rightarrow> request" where
  "precheck_request w =
     \<lparr>req_method = GET, req_url = landing_url, req_headers = sess_headers w, req_data = []\<rparr>"

text \<open>
  The data request that follows the check, and the state after it: the two requests
  are in the log and the messages of the fetch have been emitted.
\<close>

definition data_request :: "world \<Rightarrow> string \<Rightarrow> request" where
  "data_request w url =
     \<lparr>req_method = GET, req_url = url,
      req_headers = dict_update (sess_headers w) data_headers, req_data = []\<rparr>"

definition data_fetched :: "bool \<Rightarrow> string \<Rightarrow> world \<Rightarrow> world" where
  "data_fetched silent url w =
     w\<lparr>events := events w @ Log_info (''Fetching: '' @ url) #
                   (if silent then [] else [St_info ''Retrieving data from BBO...'']),
       sent := sent w @ [precheck_request w, data_request w url]\<rparr>"

text \<open>
  When the data response asks for Javascript: the state after the timezone handshake,
  and the request that fetches the target URL again.
\<close>

definition after_handshake :: "server \<Rightarrow> int \<Rightarrow> bool \<Rightarrow> string \<Rightarrow> world \<Rightarrow> world" where
  "after_handshake srv utc_offset silent url w =
     snd (handle_timezone_redirect srv utc_offset
            (unless_silent silent
               (St_warning ''Hit JavaScript requirement - trying to handle timezone...'')
               (data_fetched silent url w)))"

definition refetch_request :: "world \<Rightarrow> string \<Rightarrow> request" where
  "refetch_request w url =
     \<lparr>req_method = GET, req_url = url,
      req_headers = dict_update (sess_headers w) data_headers, req_data = []\<rparr>"

text \<open>
  The two requests of the timezone handshake, for a given state of the session and a
  given offset in minutes.
\<close>

definition tz_headers :: "world \<Rightarrow> (string, string) dict" where
  "tz_headers w =
     dict_update (sess_headers w)
       [(''Content-Type'', ''application/x-www-form-urlencoded''),
        (''Referer'', ''https://www.bridgebase.com/myhands/index.php'')]"

definition tz_post_request :: "world \<Rightarrow> int \<Rightarrow> request" where
  "tz_post_request w offset =
     \<lparr>req_method = POST, req_url = tz_url, req_headers = tz_headers w,
      req_data = [(''offset'', str_int offset)]\<rparr>"

definition tz_get_request :: "world \<Rightarrow> int \<Rightarrow> request" where
  "tz_get_request w offset =
     \<lparr>req_method = GET, req_url = alt_url offset, req_headers = tz_headers w, req_data = []\<rparr>"

text \<open>The four fixed fields of the login form data.\<close>

definition login_base :: "string \<Rightarrow> string \<Rightarrow> (string, string option) dict" where
  "login_base username password =
     [(''username'', Some username), (''password'', Some password),
      (''submit'', Some ''Login''), (''keep'', Some ''on'')]"

text \<open>The first three requests of the login.\<close>

definition login_headers :: "world \<Rightarrow> (string, string) dict" where
  "login_headers w =
     dict_update (dict_update (sess_headers w) browser_headers) [(''Referer'', home_url)]"

definition home_request :: "world \<Rightarrow> request" where
  "home_request w =
     \<lparr>req_method = GET, req_url = home_url,
      req_headers = dict_update (sess_headers w) browser_headers, req_data = []\<rparr>"

definition login_page_request :: "world \<Rightarrow> request" where
  "login_page_request w =
     \<lparr>req_method = GET, req_url = login_page_url, req_headers = login_headers w, req_data = []\<rparr>"

definition login_post_request :: "world \<Rightarrow> string \<Rightarrow> string \<Rightarrow> node \<Rightarrow> request" where
  "login_post_request w username password soup =
     \<lparr>req_method = POST, req_url = login_page_url,
      req_headers =
        dict_update (login_headers w)
          [(''Content-Type'', ''application/x-www-form-urlencoded''),
           (''Origin'', ''https://www.bridgebase.com''),
           (''Referer'', login_page_url)],
      req_data = encode_form (login_form_data username password soup)\<rparr>"

text \<open>
  Cookie text in the line format: one \<^verbatim>\<open>name=value\<close> line per pair, joined by
  newlines. A pair can be written so when its name has no \<^verbatim>\<open>=\<close>, neither part has
  a newline, and the line has no white space at its ends (the parser strips the line).
\<close>

fun join_lines :: "string list \<Rightarrow> string" where
  "join_lines [] = []"
| "join_lines [l] = l"
| "join_lines (l # l' # ls) = l @ CHR 0x0A # join_lines (l' # ls)"

definition cookie_line :: "string \<times> string \<Rightarrow> string" where
  "cookie_line p = fst p @ CHR ''='' # snd p"

text \<open>A decoded list element that carries the pair under \<^verbatim>\<open>name\<close> and \<^verbatim>\<open>value\<close>.\<close>

definition cookie_entry :: "json \<Rightarrow> string \<times> string \<Rightarrow> bool" where
  "cookie_entry c p \<longleftrightarrow>
     subscript c ''name'' = Inr (JStr (fst p)) \<and> subscript c ''value'' = Inr (JStr (snd p))"

text \<open>A pair that can be written as a line of the line format.\<close>

definition line_encodable :: "string \<times> string \<Rightarrow> bool" where
  "line_encodable p \<longleftrightarrow>
     CHR ''='' \<notin> set (fst p) \<and> CHR 0x0A \<notin> set (fst p) \<and> CHR 0x0A \<notin> set (snd p) \<and>
     strip (cookie_line p) = cookie_line p"

text \<open>The dict that results from storing the pairs one after the other.\<close>

definition store_pairs :: "(string \<times> string) list \<Rightarrow> (json, json) dict \<Rightarrow> (json, json) dict" where
  "store_pairs pairs d = fold (\<lambda>p. store (JStr (fst p)) (JStr (snd p))) pairs d"

text \<open>\<^verbatim>\<open>isinstance(v, list)\<close>\<close>

definition is_list :: "json \<Rightarrow> bool" where
  "is_list v = (case v of JArr cs \<Rightarrow> True | _ \<Rightarrow> False)"

text \<open>A list element on which the dict comprehension does not raise.\<close>

definition well_formed_cookie :: "json \<Rightarrow> bool" where
  "well_formed_cookie c \<longleftrightarrow>
     (case subscript c ''name'' of
        Inl e \<Rightarrow> False
      | Inr k \<Rightarrow> hashable k \<and> \<not> isl (subscript c ''value''))"

section \<open>Sample inputs\<close>

text \<open>
  Conversions for the sample pages: they accept the numerals that occur there, as
  \<^verbatim>\<open>float\<close> and \<^verbatim>\<open>int\<close> do, and reject the other cell text \<^verbatim>\<open>n/a\<close>, as they do.
\<close>

definition sample_float :: "string \<Rightarrow> rat option" where
  "sample_float s =
     (if s = ''1.5'' then Some (3 / 2) else if s = ''12.5'' then Some (25 / 2) else None)"

definition sample_int :: "string \<Rightarrow> int option" where
  "sample_int s = (if s = ''7'' then Some 7 else None)"

text \<open>Pages with a table of statistics rows.\<close>

definition td_cell :: "string \<Rightarrow> string \<Rightarrow> node" where
  "td_cell cls txt = Element ''td'' [cls] [] [Text txt]"

definition stat_row :: "string \<Rightarrow> string \<Rightarrow> node list \<Rightarrow> node" where
  "stat_row cls label cells =
     Element ''tr'' [cls] [] (Element ''th'' [] [] [Text label] # cells)"

definition page :: "node list \<Rightarrow> node" where
  "page rows = Element ''[document]'' [] [] [Element ''table'' [''body''] [] rows]"

definition mps_row_bad :: node where
  "mps_row_bad =
     stat_row ''odd'' ''MPs Average'' [td_cell ''score'' ''n/a'', td_cell ''numhands'' ''7'']"

definition masterpoints_row :: node where
  "masterpoints_row = stat_row ''even'' ''Total Masterpoints'' [td_cell ''score'' '' 12.5 '']"

definition page_bad_row :: node where
  "page_bad_row = page [mps_row_bad, masterpoints_row]"

definition page_good_row :: node where
  "page_good_row = page [masterpoints_row]"

definition page_no_labels :: node where
  "page_no_labels = page [stat_row ''odd'' ''Board 1'' [td_cell ''score'' ''1.5'']]"

text \<open>A session that has sent nothing yet, and a remote side that redirects to the login.\<close>

definition fresh_world :: world where
  "fresh_world = \<lparr>sess_headers = [], sent = [], events = []\<rparr>"

definition login_redirect_response :: response where
  "login_redirect_response =
     \<lparr>resp_url = ''https://www.bridgebase.com/myhands/myhands_login.php?t=%2Fmyhands%2Findex.php'',
      resp_status = 200, resp_text = ''Please login''\<rparr>"

definition expired_server :: server where
  "expired_server history = Inr login_redirect_response"

definition hands_url :: string where
  "hands_url = ''https://www.bridgebase.com/myhands/hands.php?username=x&from_login=0''"

text \<open>Rows with the two IMPs labels, one of them with a cell that is not a number.\<close>

definition imps_total_bad :: node where
  "imps_total_bad =
     stat_row ''odd'' ''IMPs Total'' [td_cell ''negscore'' ''n/a'', td_cell ''numhands'' ''7'']"

definition imps_average_row :: node where
  "imps_average_row = stat_row ''even'' ''IMPs Average'' [td_cell ''score'' ''1.5'']"

definition imps_average_later :: node where
  "imps_average_later = stat_row ''odd'' ''IMPs Average'' [td_cell ''negscore'' ''12.5'']"

definition page_imps :: node where
  "page_imps = page [imps_total_bad, imps_average_row]"

definition page_imps_swapped :: node where
  "page_imps_swapped = page [imps_average_row, imps_total_bad]"

definition page_two_averages :: node where
  "page_two_averages = page [imps_average_row, imps_average_later, masterpoints_row]"

definition page_two_labels :: node where
  "page_two_labels = page [imps_average_row, masterpoints_row]"

definition page_two_labels_swapped :: node where
  "page_two_labels_swapped = page [masterpoints_row, imps_average_row]"

text \<open>
  Pages on which a field has a value from an earlier row when a later row of the same
  label has a cell that is not a number: the score of an \<^verbatim>\<open>IMPs Average\<close> row, and
  the hand count of an \<^verbatim>\<open>IMPs Total\<close> row whose score is well formed.
\<close>

definition imps_average_bad :: node where
  "imps_average_bad = stat_row ''odd'' ''IMPs Average'' [td_cell ''score'' ''n/a'']"

definition page_average_bad :: node where
  "page_average_bad = page [imps_average_row, imps_average_bad, masterpoints_row]"

definition imps_total_row :: node where
  "imps_total_row =
     stat_row ''even'' ''IMPs Total'' [td_cell ''score'' ''12.5'', td_cell ''numhands'' ''7'']"

definition imps_total_hands_bad :: node where
  "imps_total_hands_bad =
     stat_row ''odd'' ''IMPs Total'' [td_cell ''score'' ''1.5'', td_cell ''numhands'' ''n/a'']"

definition page_hands_bad :: node where
  "page_hands_bad = page [imps_total_row, imps_total_hands_bad, masterpoints_row]"

text \<open>
  Tables: one that only the generic scan accepts, and three that known selectors select.
\<close>

definition generic_table :: node where
  "generic_table =
     Element ''table'' [] []
       [Element ''tr'' [] [] [Element ''th'' [] [] [Text ''Date'']],
        Element ''tr'' [] [] [Element ''td'' [] [] [Text ''2024-01-01'']]]"

definition body_table :: node where
  "body_table = Element ''table'' [''body''] [] [Element ''tr'' [] [] [Element ''td'' [] [] [Text ''1'']]]"

definition hands_table :: node where
  "hands_table = Element ''table'' [''hands''] [] []"

definition results_table :: node where
  "results_table = Element ''table'' [] [(''id'', ''hand_results'')] []"

definition doc_generic_then_body :: node where
  "doc_generic_then_body = Element ''[document]'' [] [] [generic_table, body_table]"

definition doc_hands_then_results :: node where
  "doc_hands_then_results = Element ''[document]'' [] [] [hands_table, results_table]"

definition doc_generic_only :: node where
  "doc_generic_only = Element ''[document]'' [] [] [Element ''p'' [] [] [Text ''x''], generic_table]"

definition doc_no_table :: node where
  "doc_no_table = Element ''[document]'' [] [] [Element ''p'' [] [] [Text ''Maintenance'']]"

text \<open>
  Remote sides that accept the session at the landing page and answer the data request
  with a given page, and a parser for the bodies of the sample pages.
\<close>

definition landing_ok :: response where
  "landing_ok = \<lparr>resp_url = landing_url, resp_status = 200, resp_text = ''logout.php''\<rparr>"

definition hands_page :: response where
  "hands_page = \<lparr>resp_url = hands_url, resp_status = 200, resp_text = ''<table>''\<rparr>"

definition hands_server :: server where
  "hands_server history =
     (if req_url (last history) = landing_url then Inr landing_ok else Inr hands_page)"

definition sample_parser :: "string \<Rightarrow> node" where
  "sample_parser text =
     (if text = ''<table>'' then doc_generic_then_body else doc_no_table)"

definition page_server :: "response \<Rightarrow> server" where
  "page_server data_response history =
     (if req_url (last history) = landing_url then Inr landing_ok else Inr data_response)"

definition no_hands_page :: response where
  "no_hands_page =
     \<lparr>resp_url = hands_url, resp_status = 200, resp_text = ''<p>You have no saved hands</p>''\<rparr>"

definition maintenance_page :: response where
  "maintenance_page =
     \<lparr>resp_url = hands_url, resp_status = 200, resp_text = ''<p>Maintenance</p>''\<rparr>"

definition js_page :: response where
  "js_page =
     \<lparr>resp_url = hands_url, resp_status = 200, resp_text = ''Javascript support is needed''\<rparr>"

text \<open>
  A remote side that asks for Javascript at the first data request and accepts the
  timezone POST; one that accepts only the GET variant; one that cannot be reached.
\<close>

definition js_server :: server where
  "js_server history =
     (if req_method (last history) = POST \<or> req_url (last history) = landing_url
      then Inr landing_ok
      else if length (filter (\<lambda>rq. req_url rq = hands_url) history) \<le> 1 then Inr js_page
      else Inr no_hands_page)"

definition alt_server :: server where
  "alt_server history =
     (if req_method (last history) = POST then Inr js_page else Inr landing_ok)"

definition down_server :: server where
  "down_server history = Inl RequestException"

text \<open>
  A login page whose form has hidden inputs: a target path, a token given twice, one
  without a value and one without a name.
\<close>

definition hidden_input :: "(string \<times> string) list \<Rightarrow> node" where
  "hidden_input as = Element ''input'' [] ((''type'', ''hidden'') # as) []"

definition login_page_doc :: node where
  "login_page_doc =
     Element ''[document]'' [] []
       [Element ''form'' [] [(''method'', ''post''), (''action'', ''myhands_login.php'')]
          [Element ''input'' [] [(''type'', ''text''), (''name'', ''username'')] [],
           Element ''input'' [] [(''type'', ''password''), (''name'', ''password'')] [],
           hidden_input [(''name'', ''t''), (''value'', ''/myhands/hands.php'')],
           hidden_input [(''name'', ''token''), (''value'', ''abc'')],
           hidden_input [(''name'', ''token''), (''value'', ''xyz'')],
           hidden_input [(''name'', ''flag'')],
           hidden_input [(''value'', ''unnamed'')],
           Element ''input'' [] [(''type'', ''submit''), (''name'', ''submit''), (''value'', ''Login'')] []]]"

definition login_server :: server where
  "login_server history =
     (if req_method (last history) = POST then Inr landing_ok
      else Inr \<lparr>resp_url = req_url (last history), resp_status = 200,
                resp_text = (if req_url (last history) = login_page_url then ''<form>'' else ''logout.php'')\<rparr>)"

definition login_parser :: "string \<Rightarrow> node" where
  "login_parser text = (if text = ''<form>'' then login_page_doc else doc_no_table)"

text \<open>A login page whose form has a hidden input named like the user-name field.\<close>

definition login_page_override :: node where
  "login_page_override =
     Element ''[document]'' [] []
       [Element ''form'' [] [(''method'', ''post'')]
          [hidden_input [(''name'', ''username''), (''value'', ''mallory'')]]]"

definition override_parser :: "string \<Rightarrow> node" where
  "override_parser text = login_page_override"

text \<open>Cookie texts: a JSON list, its line format, a JSON object, a JSON list of a string.\<close>

definition quote :: string where
  "quote = [CHR 0x22]"

definition list_text_sample :: string where
  "list_text_sample =
     ''[{'' @ quote @ ''name'' @ quote @ '': '' @ quote @ ''sid'' @ quote @ '', '' @ quote @ ''value'' @ quote @ '': '' @ quote @ ''abc'' @ quote @ ''}, {'' @ quote @ ''name'' @ quote @ '': '' @ quote @ ''lang'' @ quote @ '', '' @ quote @ ''value'' @ quote @ '': '' @ quote @ ''en'' @ quote @ '', '' @ quote @ ''domain'' @ quote @ '': '' @ quote @ ''.bridgebase.com'' @ quote @ ''}]''"

definition line_text_sample :: string where
  "line_text_sample = ''sid=abc'' @ [CHR 0x0A] @ ''lang=en''"

definition object_text_sample :: string where
  "object_text_sample = ''{'' @ quote @ ''sid'' @ quote @ '': '' @ quote @ ''abc'' @ quote @ ''}''"

definition bad_list_text_sample :: string where
  "bad_list_text_sample = ''['' @ quote @ ''a=b'' @ quote @ '']''"

text \<open>
  What \<^verbatim>\<open>json.loads\<close> returns on the sample texts; the line-format sample is not
  JSON.
\<close>

definition sample_loads :: "string \<Rightarrow> json option" where
  "sample_loads text =
     (if text = list_text_sample
      then Some (JArr [JObj [(''name'', JStr ''sid''), (''value'', JStr ''abc'')],
                       JObj [(''name'', JStr ''lang''), (''value'', JStr ''en''),
                             (''domain'', JStr ''.bridgebase.com'')]])
      else if text = object_text_sample then Some (JObj [(''sid'', JStr ''abc'')])
      else if text = bad_list_text_sample then Some (JArr [JStr ''a=b''])
      else if text = ''42'' then Some (JInt 42)
      else None)"

section \<open>Unfolding rules for evaluation\<close>

lemmas imps_defs = imps_total_bad_def imps_average_row_def imps_average_later_def page_imps_def
  page_imps_swapped_def page_two_averages_def page_two_labels_def page_two_labels_swapped_def

lemmas table_defs = generic_table_def body_table_def hands_table_def results_table_def
  doc_generic_then_body_def doc_hands_then_results_def doc_generic_only_def doc_no_table_def

lemmas server_defs = landing_ok_def hands_page_def hands_server_def sample_parser_def
  fresh_world_def precheck_request_def data_request_def landing_url_def hands_url_def

lemmas page_defs = page_server_def no_hands_page_def maintenance_page_def js_page_def js_server_def

lemmas tz_sample_defs = alt_server_def down_server_def js_server_def landing_ok_def js_page_def
  tz_post_request_def tz_get_request_def fresh_world_def

lemmas login_defs = hidden_input_def login_page_doc_def login_server_def login_parser_def

lemmas cookie_sample_defs = quote_def list_text_sample_def line_text_sample_def
  object_text_sample_def bad_list_text_sample_def sample_loads_def

lemmas sample_defs =
  sample_float_def sample_int_def td_cell_def stat_row_def page_def mps_row_bad_def
  masterpoints_row_def page_bad_row_def page_good_row_def page_no_labels_def

lemmas extract_defs =
  total_rows_def find_all_class_def find_all_def has_class_def
  process_row_def row_label_def strip_def lstrip_def rstrip_def is_space_def find_class_def
  assign_cell_def and_then_def as_float_def as_int_def remove_percent_def initial_stats_def

section \<open>Fetching: the landing-page check\<close>

lemma dict_update_Nil [simp]: "dict_update d [] = d"
  by (simp add: dict_update_def)

text \<open>
  C1. When the reply to the landing-page check has a final URL that contains the
  login marker, the fetch returns \<^verbatim>\<open>(None, None)\<close> with the session-expired message
  at once: the check is the only request it has sent (so neither the data request to the
  target URL nor any login request is issued), and the session's headers are untouched.
\<close>

theorem scrape_login_redirect_stops:
  assumes "srv (sent w @ [precheck_request w]) = Inr refresh_resp"
    and "str_in ''login.php'' (resp_url refresh_resp)"
  shows "scrape_bbo_hands srv html_parser utc_offset url silent w =
           (None, w\<lparr>sent := sent w @ [precheck_request w],
                     events := events w @
                       [St_error ''Session has expired. Please login again.'']\<rparr>)"
  using assms by (simp add: scrape_bbo_hands_def send_def precheck_request_def emit_def)

theorem scrape_login_redirect_stops_witness:
  "expired_server (sent fresh_world @ [precheck_request fresh_world]) = Inr login_redirect_response
   \<and> str_in ''login.php'' (resp_url login_redirect_response)
   \<and> scrape_bbo_hands expired_server Text 0 hands_url False fresh_world =
       (None,
        \<lparr>sess_headers = [],
         sent = [\<lparr>req_method = GET, req_url = landing_url, req_headers = [], req_data = []\<rparr>],
         events = [St_error ''Session has expired. Please login again.'']\<rparr>)"
proof -
  have a: "expired_server (sent fresh_world @ [precheck_request fresh_world])
             = Inr login_redirect_response"
    by (simp add: expired_server_def)
  have b: "str_in ''login.php'' (resp_url login_redirect_response)"
    by (simp add: login_redirect_response_def)
  show ?thesis
    using a b
      scrape_login_redirect_stops [where srv = expired_server and w = fresh_world
        and refresh_resp = login_redirect_response and html_parser = Text and utc_offset = 0
        and url = hands_url and silent = False]
    by (simp add: fresh_world_def precheck_request_def)
qed

section \<open>Statistics extraction: totality and the effect of a malformed cell\<close>

lemma extract_outcome_stats:
  "extract_player_statistics tf ti soup =
     outcome_stats (process_rows tf ti initial_stats (total_rows soup))"
  by (simp add: extract_player_statistics_def outcome_stats_def split: sum.splits prod.splits)

lemma dom_initial_stats: "dom (initial_stats :: 'f stats) = stat_keys"
  by (auto simp: initial_stats_def stat_keys_def)

lemma assign_cell_add:
  "assign_cell key conv cell (s ++ a) = map_outcome (\<lambda>a'. s ++ a') (assign_cell key conv cell a)"
  by (simp add: assign_cell_def map_outcome_def split: option.splits)

lemma and_then_add:
  assumes "m' = map_outcome ((++) s) m" and "\<And>a. f (s ++ a) = map_outcome ((++) s) (f a)"
  shows "and_then m' f = map_outcome ((++) s) (and_then m f)"
  using assms by (auto simp: and_then_def map_outcome_def split: sum.splits prod.splits)

text \<open>What a row does to a dict is what it does to the empty dict, laid over the dict.\<close>

lemma process_row_add:
  "process_row tf ti (s ++ a) row = map_outcome ((++) s) (process_row tf ti a row)"
proof (cases "row_label row")
  case None
  then show ?thesis by (simp add: process_row_def map_outcome_def)
next
  case (Some label)
  then show ?thesis
    by (simp add: process_row_def and_then_add assign_cell_add) (simp add: map_outcome_def)
qed

lemma process_row_from_empty:
  "process_row tf ti s row = map_outcome ((++) s) (process_row tf ti Map.empty row)"
  using process_row_add [of tf ti s Map.empty row] by simp

lemma process_rows_append:
  "process_rows tf ti s (pre @ post) =
     (case process_rows tf ti s pre of Inl x \<Rightarrow> Inl x | Inr s' \<Rightarrow> process_rows tf ti s' post)"
  by (induction pre arbitrary: s) (simp_all split: sum.splits)

lemma assign_cell_dom_sub:
  "dom (outcome_stats (assign_cell key conv cell s)) \<subseteq> insert key (dom s)"
  by (auto simp: assign_cell_def outcome_stats_def split: option.splits)

lemma and_then_assign_dom_sub:
  "dom (outcome_stats (and_then (assign_cell k1 c1 cell1 s) (assign_cell k2 c2 cell2)))
     \<subseteq> insert k1 (insert k2 (dom s))"
proof (cases "assign_cell k1 c1 cell1 s")
  case (Inl x)
  then show ?thesis
    using assign_cell_dom_sub [of k1 c1 cell1 s] by (auto simp: and_then_def)
next
  case (Inr s1)
  then have "dom s1 \<subseteq> insert k1 (dom s)"
    using assign_cell_dom_sub [of k1 c1 cell1 s] by (simp add: outcome_stats_def)
  moreover have "dom (outcome_stats (assign_cell k2 c2 cell2 s1)) \<subseteq> insert k2 (dom s1)"
    by (rule assign_cell_dom_sub)
  ultimately have
    "dom (outcome_stats (assign_cell k2 c2 cell2 s1)) \<subseteq> insert k1 (insert k2 (dom s))"
    by blast
  then show ?thesis
    using Inr by (simp add: and_then_def)
qed

text \<open>A row writes only the fields of the aggregate label it carries.\<close>

lemma row_assigns_dom: "dom (row_assigns tf ti row) \<subseteq> branch_fields (row_branch row)"
proof (cases "row_label row")
  case None
  then show ?thesis
    by (simp add: row_assigns_def process_row_def outcome_stats_def)
next
  case (Some label)
  consider (a) "str_in ''IMPs Total'' label"
    | (b) "\<not> str_in ''IMPs Total'' label" "str_in ''IMPs Average'' label"
    | (c) "\<not> str_in ''IMPs Total'' label" "\<not> str_in ''IMPs Average'' label"
          "str_in ''MPs Average'' label"
    | (d) "\<not> str_in ''IMPs Total'' label" "\<not> str_in ''IMPs Average'' label"
          "\<not> str_in ''MPs Average'' label" "str_in ''Total Masterpoints'' label"
    | (e) "\<not> str_in ''IMPs Total'' label" "\<not> str_in ''IMPs Average'' label"
          "\<not> str_in ''MPs Average'' label" "\<not> str_in ''Total Masterpoints'' label"
    by blast
  then show ?thesis
  proof cases
    case a
    then show ?thesis
      using Some and_then_assign_dom_sub [where s = Map.empty]
      by (simp add: row_assigns_def process_row_def row_branch_def branch_fields_def)
  next
    case b
    then show ?thesis
      using Some assign_cell_dom_sub [where s = Map.empty]
      by (simp add: row_assigns_def process_row_def row_branch_def branch_fields_def)
  next
    case c
    then show ?thesis
      using Some and_then_assign_dom_sub [where s = Map.empty]
      by (simp add: row_assigns_def process_row_def row_branch_def branch_fields_def)
  next
    case d
    then show ?thesis
      using Some assign_cell_dom_sub [where s = Map.empty]
      by (simp add: row_assigns_def process_row_def row_branch_def branch_fields_def)
  next
    case e
    then show ?thesis
      using Some
      by (simp add: row_assigns_def process_row_def row_branch_def outcome_stats_def)
  qed
qed

lemma process_row_dom:
  assumes "stat_keys \<subseteq> dom s"
  shows "dom (outcome_stats (process_row tf ti s row)) = dom s"
proof -
  have "process_row tf ti s row = map_outcome ((++) s) (process_row tf ti Map.empty row)"
    by (rule process_row_from_empty)
  then have "outcome_stats (process_row tf ti s row) = s ++ row_assigns tf ti row"
    by (simp add: row_assigns_def outcome_stats_def map_outcome_def split: sum.splits prod.splits)
  moreover have "branch_fields (row_branch row) \<subseteq> stat_keys"
    by (auto simp: branch_fields_def stat_keys_def)
  ultimately show ?thesis
    using row_assigns_dom [of tf ti row] assms by auto
qed

lemma process_rows_dom:
  "stat_keys \<subseteq> dom s \<Longrightarrow> dom (outcome_stats (process_rows tf ti s rows)) = dom s"
proof (induction rows arbitrary: s)
  case Nil
  then show ?case by (simp add: outcome_stats_def)
next
  case (Cons row rows)
  show ?case
  proof (cases "process_row tf ti s row")
    case (Inl x)
    then show ?thesis using process_row_dom [OF Cons.prems, of tf ti row] by simp
  next
    case (Inr s')
    then have "dom s' = dom s" using process_row_dom [OF Cons.prems, of tf ti row]
      by (simp add: outcome_stats_def)
    then show ?thesis using Cons.IH [of s'] Cons.prems Inr by simp
  qed
qed

lemma process_row_unknown:
  "(case row_label row of None \<Rightarrow> True | Some l \<Rightarrow> \<not> known_label l) \<Longrightarrow>
     process_row tf ti s row = Inr s"
  by (auto simp: process_row_def known_label_def split: option.splits)

lemma process_rows_unknown:
  "\<forall>row \<in> set rows. (case row_label row of None \<Rightarrow> True | Some l \<Rightarrow> \<not> known_label l) \<Longrightarrow>
     process_rows tf ti s rows = Inr s"
  by (induction rows) (simp_all add: process_row_unknown)

lemma assign_cell_failure:
  "assign_cell key conv cell_opt s = Inl (e, s') \<Longrightarrow>
     e = ValueError \<and> s' = s \<and> cell_raises conv cell_opt"
  by (auto simp: assign_cell_def cell_raises_def split: option.splits)

lemma assign_cell_success:
  "assign_cell key conv cell_opt s = Inr s1 \<Longrightarrow>
     (cell_opt = None \<and> s1 = s)
     \<or> (\<exists>c v. cell_opt = Some c \<and> conv (strip (get_text c)) = Some v \<and> s1 = s(key \<mapsto> v))"
  by (auto simp: assign_cell_def split: option.splits)

lemma and_then_failure:
  assumes "and_then (assign_cell k1 c1 cell1 s) (assign_cell k2 c2 cell2) = Inl (e, s')"
  shows "e = ValueError \<and>
     ((s' = s \<and> (cell_raises c1 cell1 \<or> cell1 = None))
      \<or> (\<exists>c v. cell1 = Some c \<and> c1 (strip (get_text c)) = Some v \<and> cell_raises c2 cell2
                \<and> s' = s(k1 \<mapsto> v)))"
proof (cases "assign_cell k1 c1 cell1 s")
  case (Inl x)
  then show ?thesis
    using assms assign_cell_failure [of k1 c1 cell1 s e s'] by (simp add: and_then_def)
next
  case (Inr s1)
  then have "assign_cell k2 c2 cell2 s1 = Inl (e, s')"
    using assms by (simp add: and_then_def)
  then have "e = ValueError \<and> s' = s1 \<and> cell_raises c2 cell2"
    by (rule assign_cell_failure)
  then show ?thesis
    using assign_cell_success [OF Inr] by auto
qed

text \<open>
  The dict at the moment a row raises: the dict the row started with, except that the
  score of a two-field row has been stored when it is the hand count that is rejected.
\<close>

lemma process_row_failure:
  assumes "process_row to_float to_int s row = Inl (e, s')"
  shows "e = ValueError
     \<and> (s' = s
        \<or> (\<exists>c x. row_branch row = Some ''IMPs Total''
                  \<and> find_class ''td'' [''score'', ''negscore''] row = Some c
                  \<and> to_float (strip (get_text c)) = Some x
                  \<and> cell_raises to_int (find_class ''td'' [''numhands''] row)
                  \<and> s' = s(''IMPs_Total'' \<mapsto> PFloat x))
        \<or> (\<exists>c x. row_branch row = Some ''MPs Average''
                  \<and> find_class ''td'' [''score''] row = Some c
                  \<and> to_float (remove_percent (strip (get_text c))) = Some x
                  \<and> cell_raises to_int (find_class ''td'' [''numhands''] row)
                  \<and> s' = s(''MPs_Average'' \<mapsto> PFloat x)))"
proof (cases "row_label row")
  case None
  then show ?thesis using assms by (simp add: process_row_def)
next
  case (Some label)
  consider (a) "str_in ''IMPs Total'' label"
    | (b) "\<not> str_in ''IMPs Total'' label" "str_in ''IMPs Average'' label"
    | (c) "\<not> str_in ''IMPs Total'' label" "\<not> str_in ''IMPs Average'' label"
          "str_in ''MPs Average'' label"
    | (d) "\<not> str_in ''IMPs Total'' label" "\<not> str_in ''IMPs Average'' label"
          "\<not> str_in ''MPs Average'' label" "str_in ''Total Masterpoints'' label"
    | (e) "\<not> str_in ''IMPs Total'' label" "\<not> str_in ''IMPs Average'' label"
          "\<not> str_in ''MPs Average'' label" "\<not> str_in ''Total Masterpoints'' label"
    by blast
  then show ?thesis
  proof cases
    case a
    then have "and_then
              (assign_cell ''IMPs_Total'' (as_float to_float)
                 (find_class ''td'' [''score'', ''negscore''] row) s)
              (assign_cell ''IMPs_Hands'' (as_int to_int)
                 (find_class ''td'' [''numhands''] row)) = Inl (e, s')"
      using Some assms by (simp add: process_row_def)
    from and_then_failure [OF this] a Some show ?thesis
      by (auto simp: row_branch_def as_float_def as_int_def cell_raises_def split: option.splits)
  next
    case b
    then have "assign_cell ''IMPs_Average'' (as_float to_float)
              (find_class ''td'' [''score'', ''negscore''] row) s = Inl (e, s')"
      using Some assms by (simp add: process_row_def)
    from assign_cell_failure [OF this] show ?thesis by simp
  next
    case c
    then have "and_then
              (assign_cell ''MPs_Average'' (as_float to_float \<circ> remove_percent)
                 (find_class ''td'' [''score''] row) s)
              (assign_cell ''MPs_Hands'' (as_int to_int)
                 (find_class ''td'' [''numhands''] row)) = Inl (e, s')"
      using Some assms by (simp add: process_row_def)
    from and_then_failure [OF this] c Some show ?thesis
      by (auto simp: row_branch_def as_float_def as_int_def cell_raises_def split: option.splits)
  next
    case d
    then have "assign_cell ''Total_Masterpoints'' (as_float to_float)
              (find_class ''td'' [''score''] row) s = Inl (e, s')"
      using Some assms by (simp add: process_row_def)
    from assign_cell_failure [OF this] show ?thesis by simp
  next
    case e
    then show ?thesis using Some assms by (simp add: process_row_def)
  qed
qed

text \<open>
  C2, as the code has it. The extraction always returns a summary with the six fields;
  on a document none of whose rows carries a known aggregate label the summary is the
  all-zero one; and a value cell that does not convert ends the extraction: the
  exception is a \<^verbatim>\<open>ValueError\<close>, and the summary returned, whatever rows follow, is
  the dict as the rows before had left it, with every field at the value it had there,
  the field of the rejected cell included; the one field that can differ is the score of
  an \<^verbatim>\<open>IMPs Total\<close> or \<^verbatim>\<open>MPs Average\<close> row whose score cell converts and whose
  hand count is the rejected cell: that score has been stored.
\<close>

theorem extract_total_stops_at_failure:
  "dom (extract_player_statistics to_float to_int soup) = stat_keys
   \<and> ((\<forall>row \<in> set (total_rows soup).
          case row_label row of None \<Rightarrow> True | Some label \<Rightarrow> \<not> known_label label)
        \<longrightarrow> extract_player_statistics to_float to_int soup = initial_stats)
   \<and> (total_rows soup = pre @ row # post
        \<and> process_rows to_float to_int initial_stats pre = Inr s
        \<and> process_row to_float to_int s row = Inl (e, s')
        \<longrightarrow> extract_player_statistics to_float to_int soup = s'
            \<and> e = ValueError
            \<and> (s' = s
               \<or> (\<exists>c x. row_branch row = Some ''IMPs Total''
                         \<and> find_class ''td'' [''score'', ''negscore''] row = Some c
                         \<and> to_float (strip (get_text c)) = Some x
                         \<and> cell_raises to_int (find_class ''td'' [''numhands''] row)
                         \<and> s' = s(''IMPs_Total'' \<mapsto> PFloat x))
               \<or> (\<exists>c x. row_branch row = Some ''MPs Average''
                         \<and> find_class ''td'' [''score''] row = Some c
                         \<and> to_float (remove_percent (strip (get_text c))) = Some x
                         \<and> cell_raises to_int (find_class ''td'' [''numhands''] row)
                         \<and> s' = s(''MPs_Average'' \<mapsto> PFloat x))))"
proof (intro conjI impI)
  show "dom (extract_player_statistics to_float to_int soup) = stat_keys"
    using process_rows_dom [of initial_stats to_float to_int "total_rows soup"]
    by (simp add: extract_outcome_stats dom_initial_stats)
next
  assume "\<forall>row \<in> set (total_rows soup).
            case row_label row of None \<Rightarrow> True | Some label \<Rightarrow> \<not> known_label label"
  then show "extract_player_statistics to_float to_int soup = initial_stats"
    by (simp add: extract_outcome_stats process_rows_unknown outcome_stats_def)
next
  assume h: "total_rows soup = pre @ row # post
        \<and> process_rows to_float to_int initial_stats pre = Inr s
        \<and> process_row to_float to_int s row = Inl (e, s')"
  then show "extract_player_statistics to_float to_int soup = s'"
    by (simp add: extract_outcome_stats process_rows_append outcome_stats_def)
  from h have f: "process_row to_float to_int s row = Inl (e, s')"
    by simp
  show "e = ValueError"
    using process_row_failure [OF f] by simp
  show "s' = s
               \<or> (\<exists>c x. row_branch row = Some ''IMPs Total''
                         \<and> find_class ''td'' [''score'', ''negscore''] row = Some c
                         \<and> to_float (strip (get_text c)) = Some x
                         \<and> cell_raises to_int (find_class ''td'' [''numhands''] row)
                         \<and> s' = s(''IMPs_Total'' \<mapsto> PFloat x))
               \<or> (\<exists>c x. row_branch row = Some ''MPs Average''
                         \<and> find_class ''td'' [''score''] row = Some c
                         \<and> to_float (remove_percent (strip (get_text c))) = Some x
                         \<and> cell_raises to_int (find_class ''td'' [''numhands''] row)
                         \<and> s' = s(''MPs_Average'' \<mapsto> PFloat x))"
    using process_row_failure [OF f] by simp
qed

lemmas failure_sample_defs =
  imps_average_row_def imps_average_bad_def page_average_bad_def imps_total_row_def
  imps_total_hands_bad_def page_hands_bad_def

theorem extract_total_stops_at_failure_witness:
  "extract_player_statistics sample_float sample_int page_no_labels = initial_stats
   \<and> total_rows page_average_bad = [imps_average_row] @ imps_average_bad # [masterpoints_row]
   \<and> process_rows sample_float sample_int initial_stats [imps_average_row]
        = Inr (initial_stats(''IMPs_Average'' \<mapsto> PFloat (3 / 2)))
   \<and> process_row sample_float sample_int (initial_stats(''IMPs_Average'' \<mapsto> PFloat (3 / 2)))
        imps_average_bad
        = Inl (ValueError, initial_stats(''IMPs_Average'' \<mapsto> PFloat (3 / 2)))
   \<and> extract_player_statistics sample_float sample_int page_average_bad
        = initial_stats(''IMPs_Average'' \<mapsto> PFloat (3 / 2))
   \<and> total_rows page_hands_bad = [imps_total_row] @ imps_total_hands_bad # [masterpoints_row]
   \<and> process_rows sample_float sample_int initial_stats [imps_total_row]
        = Inr (initial_stats(''IMPs_Total'' \<mapsto> PFloat (25 / 2), ''IMPs_Hands'' \<mapsto> PInt 7))
   \<and> process_row sample_float sample_int
        (initial_stats(''IMPs_Total'' \<mapsto> PFloat (25 / 2), ''IMPs_Hands'' \<mapsto> PInt 7))
        imps_total_hands_bad
        = Inl (ValueError,
               initial_stats(''IMPs_Total'' \<mapsto> PFloat (25 / 2), ''IMPs_Hands'' \<mapsto> PInt 7,
                             ''IMPs_Total'' \<mapsto> PFloat (3 / 2)))
   \<and> extract_player_statistics sample_float sample_int page_hands_bad
        = initial_stats(''IMPs_Total'' \<mapsto> PFloat (25 / 2), ''IMPs_Hands'' \<mapsto> PInt 7,
                        ''IMPs_Total'' \<mapsto> PFloat (3 / 2))
   \<and> extract_player_statistics sample_float sample_int page_average_bad ''IMPs_Average''
        = Some (PFloat (3 / 2))
   \<and> extract_player_statistics sample_float sample_int page_average_bad ''Total_Masterpoints''
        = Some (PInt 0)
   \<and> extract_player_statistics sample_float sample_int page_hands_bad ''IMPs_Hands''
        = Some (PInt 7)
   \<and> extract_player_statistics sample_float sample_int page_hands_bad ''IMPs_Total''
        = Some (PFloat (3 / 2))"
proof -
  let ?s1 = "(initial_stats :: rat stats)(''IMPs_Average'' \<mapsto> PFloat (3 / 2))"
  let ?s2 = "(initial_stats :: rat stats)
               (''IMPs_Total'' \<mapsto> PFloat (25 / 2), ''IMPs_Hands'' \<mapsto> PInt 7)"
  have a: "\<forall>row \<in> set (total_rows page_no_labels).
            case row_label row of None \<Rightarrow> True | Some label \<Rightarrow> \<not> known_label label"
    by (simp add: sample_defs extract_defs known_label_def)
  have b: "total_rows page_average_bad = [imps_average_row] @ imps_average_bad # [masterpoints_row]"
    "total_rows page_hands_bad = [imps_total_row] @ imps_total_hands_bad # [masterpoints_row]"
    by (simp_all add: sample_defs failure_sample_defs total_rows_def find_all_class_def
          find_all_def has_class_def)
  have c: "process_rows sample_float sample_int initial_stats [imps_average_row] = Inr ?s1"
    by (simp add: sample_defs failure_sample_defs extract_defs)
  have d: "process_row sample_float sample_int ?s1 imps_average_bad = Inl (ValueError, ?s1)"
    by (simp add: sample_defs failure_sample_defs extract_defs)
  have e: "process_rows sample_float sample_int initial_stats [imps_total_row] = Inr ?s2"
    by (simp add: sample_defs failure_sample_defs extract_defs)
  have f: "process_row sample_float sample_int ?s2 imps_total_hands_bad
             = Inl (ValueError, ?s2(''IMPs_Total'' \<mapsto> PFloat (3 / 2)))"
    by (simp add: sample_defs failure_sample_defs extract_defs)
  have g: "extract_player_statistics sample_float sample_int page_no_labels = initial_stats"
    using a extract_total_stops_at_failure [of sample_float sample_int page_no_labels]
    by blast
  have h: "extract_player_statistics sample_float sample_int page_average_bad = ?s1"
    using b c d
      extract_total_stops_at_failure [of sample_float sample_int page_average_bad
        "[imps_average_row]" imps_average_bad "[masterpoints_row]" ?s1 ValueError ?s1]
    by blast
  have i: "extract_player_statistics sample_float sample_int page_hands_bad
             = ?s2(''IMPs_Total'' \<mapsto> PFloat (3 / 2))"
    using b e f
      extract_total_stops_at_failure [of sample_float sample_int page_hands_bad
        "[imps_total_row]" imps_total_hands_bad "[masterpoints_row]" ?s2 ValueError
        "?s2(''IMPs_Total'' \<mapsto> PFloat (3 / 2))"]
    by blast
  have j: "?s1 ''IMPs_Average'' = Some (PFloat (3 / 2))"
    "?s1 ''Total_Masterpoints'' = Some (PInt 0)"
    "(?s2(''IMPs_Total'' \<mapsto> PFloat (3 / 2))) ''IMPs_Hands'' = Some (PInt 7)"
    "(?s2(''IMPs_Total'' \<mapsto> PFloat (3 / 2))) ''IMPs_Total'' = Some (PFloat (3 / 2))"
    by (simp_all add: initial_stats_def)
  show ?thesis
    unfolding h i using b c d e f g j by blast
qed

text \<open>
  The claim as the specification states it fails: the page with the malformed
  \<^verbatim>\<open>MPs Average\<close> row in front loses the masterpoints that the well-formed row
  carries; without that row they are extracted.
\<close>

theorem extract_bad_row_counterexample:
  "extract_player_statistics sample_float sample_int page_good_row ''Total_Masterpoints''
     = Some (PFloat (25 / 2))
   \<and> extract_player_statistics sample_float sample_int page_bad_row ''Total_Masterpoints''
     = Some (PInt 0)"
  by (simp add: extract_player_statistics_def sample_defs extract_defs)

section \<open>Statistics extraction: order of the rows\<close>

lemma process_row_no_raise:
  "\<not> row_raises tf ti row \<Longrightarrow> process_row tf ti s row = Inr (s ++ row_assigns tf ti row)"
  by (subst process_row_from_empty)
     (auto simp: row_raises_def row_assigns_def map_outcome_def outcome_stats_def split: sum.splits)

lemma process_rows_no_raise:
  "\<forall>row \<in> set rows. \<not> row_raises tf ti row \<Longrightarrow>
     process_rows tf ti s rows = Inr (fold (\<lambda>row acc. acc ++ row_assigns tf ti row) rows s)"
  by (induction rows arbitrary: s) (simp_all add: process_row_no_raise)

lemma fold_assigns_unchanged:
  "\<forall>row \<in> set rows. row_assigns tf ti row key = None \<Longrightarrow>
     fold (\<lambda>row acc. acc ++ row_assigns tf ti row) rows s key = s key"
  by (induction rows arbitrary: s) (simp_all add: map_add_def)

lemma branch_fields_disjoint:
  "b \<noteq> b' \<or> b = None \<Longrightarrow> branch_fields b \<inter> branch_fields b' = {}"
  by (auto simp: branch_fields_def split: if_splits)

lemma row_assigns_disjoint:
  assumes "row_branch x \<noteq> row_branch y \<or> row_branch x = None"
  shows "dom (row_assigns tf ti x) \<inter> dom (row_assigns tf ti y) = {}"
  using row_assigns_dom [of tf ti x] row_assigns_dom [of tf ti y]
    branch_fields_disjoint [OF assms]
  by blast

lemma distinct_labels_branches:
  assumes "distinct_labels rows" and "x \<in> set rows" and "y \<in> set rows" and "x \<noteq> y"
  shows "row_branch x \<noteq> row_branch y \<or> row_branch x = None"
proof (rule ccontr)
  assume "\<not> ?thesis"
  then have eq: "row_branch x = row_branch y" and some: "row_branch x \<noteq> None" by auto
  let ?keep = "filter (\<lambda>r. row_branch r \<noteq> None) rows"
  have "distinct (map row_branch ?keep)"
    using assms(1) by (simp add: distinct_labels_def filter_map comp_def)
  then have "inj_on row_branch (set ?keep)"
    by (simp add: distinct_map)
  moreover have "x \<in> set ?keep" "y \<in> set ?keep"
    using assms(2,3) eq some by auto
  ultimately have "x = y" using eq by (auto dest: inj_onD)
  with assms(4) show False by simp
qed

lemma fold_assigns_permuted:
  assumes "mset rows' = mset rows" and "distinct_labels rows"
  shows "fold (\<lambda>row acc. acc ++ row_assigns tf ti row) rows' s =
         fold (\<lambda>row acc. acc ++ row_assigns tf ti row) rows s"
proof (rule fold_permuted_eq [where P = "\<lambda>_. True", symmetric])
  show "mset rows = mset rows'" using assms(1) by simp
next
  fix x y and z :: "'a stats"
  assume xy: "x \<in> set rows" "y \<in> set rows"
  show "z ++ row_assigns tf ti y ++ row_assigns tf ti x =
        z ++ row_assigns tf ti x ++ row_assigns tf ti y"
  proof (cases "x = y")
    case True
    then show ?thesis by simp
  next
    case False
    then have "dom (row_assigns tf ti x) \<inter> dom (row_assigns tf ti y) = {}"
      using distinct_labels_branches [OF assms(2) xy] row_assigns_disjoint by blast
    then have "row_assigns tf ti y ++ row_assigns tf ti x =
               row_assigns tf ti x ++ row_assigns tf ti y"
      using map_add_comm [of "row_assigns tf ti y" "row_assigns tf ti x"]
      by (simp add: Int_commute)
    then show ?thesis by (metis map_add_assoc)
  qed
qed simp_all

text \<open>
  C9, as the code has it. Provided no value cell of the document fails to convert:
  a row writes only the fields of the aggregate label it carries; a field has the value
  written by the last row in document order that writes it; and when no two rows carry
  the same aggregate label, a document with the same rows in another order yields the
  same summary.
\<close>

theorem extract_last_assignment_and_permutation:
  assumes "\<forall>row \<in> set (total_rows soup). \<not> row_raises to_float to_int row"
  shows "dom (row_assigns to_float to_int row) \<subseteq> branch_fields (row_branch row)
    \<and> (total_rows soup = pre @ row # post
        \<and> row_assigns to_float to_int row key = Some v
        \<and> (\<forall>later \<in> set post. row_assigns to_float to_int later key = None)
        \<longrightarrow> extract_player_statistics to_float to_int soup key = Some v)
    \<and> (mset (total_rows soup') = mset (total_rows soup) \<and> distinct_labels (total_rows soup)
        \<longrightarrow> extract_player_statistics to_float to_int soup'
              = extract_player_statistics to_float to_int soup)"
proof (intro conjI impI)
  show "dom (row_assigns to_float to_int row) \<subseteq> branch_fields (row_branch row)"
    by (rule row_assigns_dom)
next
  let ?step = "\<lambda>row acc. acc ++ row_assigns to_float to_int row"
  assume h: "total_rows soup = pre @ row # post
        \<and> row_assigns to_float to_int row key = Some v
        \<and> (\<forall>later \<in> set post. row_assigns to_float to_int later key = None)"
  have "extract_player_statistics to_float to_int soup
          = fold ?step (total_rows soup) initial_stats"
    using assms by (simp add: extract_outcome_stats process_rows_no_raise outcome_stats_def)
  also have "\<dots> = fold ?step post (fold ?step pre initial_stats ++ row_assigns to_float to_int row)"
    using h by simp
  finally have "extract_player_statistics to_float to_int soup key
          = (fold ?step pre initial_stats ++ row_assigns to_float to_int row) key"
    using h fold_assigns_unchanged [of post to_float to_int key] by simp
  then show "extract_player_statistics to_float to_int soup key = Some v"
    using h by (simp add: map_add_def)
next
  let ?step = "\<lambda>row acc. acc ++ row_assigns to_float to_int row"
  assume h: "mset (total_rows soup') = mset (total_rows soup) \<and> distinct_labels (total_rows soup)"
  then have "set (total_rows soup') = set (total_rows soup)"
    by (metis set_mset_mset)
  then have "\<forall>row \<in> set (total_rows soup'). \<not> row_raises to_float to_int row"
    using assms by simp
  then have "extract_player_statistics to_float to_int soup'
          = fold ?step (total_rows soup') initial_stats"
    by (simp add: extract_outcome_stats process_rows_no_raise outcome_stats_def)
  also have "\<dots> = fold ?step (total_rows soup) initial_stats"
    using h fold_assigns_permuted [of "total_rows soup'" "total_rows soup"] by blast
  also have "\<dots> = extract_player_statistics to_float to_int soup"
    using assms by (simp add: extract_outcome_stats process_rows_no_raise outcome_stats_def)
  finally show "extract_player_statistics to_float to_int soup'
              = extract_player_statistics to_float to_int soup" .
qed

lemma rows_two_averages:
  "total_rows page_two_averages = [imps_average_row] @ imps_average_later # [masterpoints_row]"
  by (simp add: sample_defs imps_defs extract_defs)
lemma rows_two_labels: "total_rows page_two_labels = [imps_average_row, masterpoints_row]"
  by (simp add: sample_defs imps_defs extract_defs)
lemma rows_two_labels_swapped: "total_rows page_two_labels_swapped = [masterpoints_row, imps_average_row]"
  by (simp add: sample_defs imps_defs extract_defs)
lemma sample_rows_no_raise:
  "\<not> row_raises sample_float sample_int imps_average_row"
  "\<not> row_raises sample_float sample_int imps_average_later"
  "\<not> row_raises sample_float sample_int masterpoints_row"
  by (simp_all add: row_raises_def sample_defs imps_defs extract_defs)
lemma sample_rows_assign:
  "row_assigns sample_float sample_int imps_average_later ''IMPs_Average'' = Some (PFloat (25 / 2))"
  "row_assigns sample_float sample_int masterpoints_row ''IMPs_Average'' = None"
  by (simp_all add: row_assigns_def outcome_stats_def sample_defs imps_defs extract_defs)
lemma sample_rows_branch:
  "row_branch imps_average_row = Some ''IMPs Average''"
  "row_branch masterpoints_row = Some ''Total Masterpoints''"
  by (simp_all add: row_branch_def sample_defs imps_defs extract_defs)

theorem extract_last_assignment_and_permutation_witness:
  "total_rows page_two_averages = [imps_average_row] @ imps_average_later # [masterpoints_row]
   \<and> \<not> row_raises sample_float sample_int imps_average_row
   \<and> \<not> row_raises sample_float sample_int imps_average_later
   \<and> \<not> row_raises sample_float sample_int masterpoints_row
   \<and> row_assigns sample_float sample_int imps_average_later ''IMPs_Average'' = Some (PFloat (25 / 2))
   \<and> extract_player_statistics sample_float sample_int page_two_averages ''IMPs_Average''
        = Some (PFloat (25 / 2))
   \<and> total_rows page_two_labels = [imps_average_row, masterpoints_row]
   \<and> mset (total_rows page_two_labels_swapped) = mset (total_rows page_two_labels)
   \<and> distinct_labels (total_rows page_two_labels)
   \<and> extract_player_statistics sample_float sample_int page_two_labels_swapped
        = extract_player_statistics sample_float sample_int page_two_labels"
proof -
  have a: "\<forall>row \<in> set (total_rows page_two_averages). \<not> row_raises sample_float sample_int row"
    by (simp add: rows_two_averages sample_rows_no_raise)
  have b: "\<forall>later \<in> set [masterpoints_row]. row_assigns sample_float sample_int later ''IMPs_Average'' = None"
    by (simp add: sample_rows_assign)
  have c: "\<forall>row \<in> set (total_rows page_two_labels). \<not> row_raises sample_float sample_int row"
    by (simp add: rows_two_labels sample_rows_no_raise)
  have d: "mset (total_rows page_two_labels_swapped) = mset (total_rows page_two_labels)"
    by (simp add: rows_two_labels rows_two_labels_swapped)
  have e: "distinct_labels (total_rows page_two_labels)"
    by (simp add: rows_two_labels distinct_labels_def sample_rows_branch)
  show ?thesis
    using b d e rows_two_averages rows_two_labels sample_rows_no_raise sample_rows_assign(1)
      extract_last_assignment_and_permutation [OF a, of imps_average_later "[imps_average_row]"
        "[masterpoints_row]" "''IMPs_Average''" "PFloat (25 / 2)"]
      extract_last_assignment_and_permutation [OF c, where soup' = page_two_labels_swapped]
    by blast
qed

text \<open>
  Without that proviso the order matters: two rows with distinct labels, the
  \<^verbatim>\<open>IMPs Total\<close> one with a cell that does not convert. In front, it ends the
  extraction before the average is read; behind, the average has been stored already.
\<close>

theorem extract_permutation_counterexample:
  "mset (total_rows page_imps_swapped) = mset (total_rows page_imps)
   \<and> distinct_labels (total_rows page_imps)
   \<and> extract_player_statistics sample_float sample_int page_imps ''IMPs_Average'' = Some (PInt 0)
   \<and> extract_player_statistics sample_float sample_int page_imps_swapped ''IMPs_Average''
        = Some (PFloat (3 / 2))"
proof -
  have r: "total_rows page_imps = [imps_total_bad, imps_average_row]"
     "total_rows page_imps_swapped = [imps_average_row, imps_total_bad]"
    by (simp_all add: sample_defs imps_defs extract_defs)
  have b: "row_branch imps_total_bad = Some ''IMPs Total''"
    by (simp add: row_branch_def sample_defs imps_defs extract_defs)
  have "extract_player_statistics sample_float sample_int page_imps ''IMPs_Average'' = Some (PInt 0)"
    by (simp add: extract_player_statistics_def sample_defs imps_defs extract_defs)
  moreover have "extract_player_statistics sample_float sample_int page_imps_swapped ''IMPs_Average''
        = Some (PFloat (3 / 2))"
    by (simp add: extract_player_statistics_def sample_defs imps_defs extract_defs)
  ultimately show ?thesis
    using r b by (simp add: distinct_labels_def sample_rows_branch)
qed

section \<open>Fetching: locating the table\<close>

lemma try_selectors_first_match:
  "(\<forall>s \<in> set pre. select_one soup s = None) \<Longrightarrow> select_one soup sel = Some t \<Longrightarrow>
     try_selectors soup (pre @ sel # post) = Some t"
  by (induction pre) simp_all

lemma try_selectors_none:
  "(\<forall>s \<in> set sels. select_one soup s = None) \<Longrightarrow> try_selectors soup sels = None"
  by (induction sels) simp_all

lemma scrape_parse_locate:
  "\<not> str_in ''You have no saved hands'' (resp_text response) \<Longrightarrow>
     fst (scrape_parse html_parser silent response w) =
       map_option (Pair (html_parser (resp_text response)))
         (locate_table (html_parser (resp_text response)))"
  by (simp add: scrape_parse_def Let_def split: option.splits)

lemma scrape_direct:
  assumes "srv (sent w @ [precheck_request w]) = Inr refresh_resp"
    and "\<not> str_in ''login.php'' (resp_url refresh_resp)"
    and "srv (sent w @ [precheck_request w, data_request w url]) = Inr response"
    and "\<not> str_in ''login.php'' (resp_url response)"
    and "\<not> str_in ''Javascript support is needed'' (resp_text response)"
  shows "scrape_bbo_hands srv html_parser utc_offset url silent w =
           scrape_parse html_parser silent response (data_fetched silent url w)"
  using assms
  by (simp add: scrape_bbo_hands_def scrape_data_def send_def precheck_request_def
        data_request_def data_fetched_def emit_def unless_silent_def Let_def)

text \<open>
  C3. The known selectors are tried in their listed order and the first that selects
  an element decides, whatever the generic scan would find; the generic scan, the first
  table in document order that passes the test, is the result only when no known
  selector selects anything; and the fetch returns the parsed document with the located
  table, or \<^verbatim>\<open>(None, None)\<close> when neither method finds one.
\<close>

theorem locate_table_strict_order:
  "(table_selectors = pre @ sel # post \<and> (\<forall>s \<in> set pre. select_one soup s = None)
      \<and> select_one soup sel = Some t
      \<longrightarrow> locate_table soup = Some t)
   \<and> ((\<forall>s \<in> set table_selectors. select_one soup s = None)
      \<longrightarrow> locate_table soup = List.find hand_record_like (find_all ''table'' soup))
   \<and> (srv (sent w @ [precheck_request w]) = Inr refresh_resp
      \<and> \<not> str_in ''login.php'' (resp_url refresh_resp)
      \<and> srv (sent w @ [precheck_request w, data_request w url]) = Inr response
      \<and> \<not> str_in ''login.php'' (resp_url response)
      \<and> \<not> str_in ''Javascript support is needed'' (resp_text response)
      \<and> \<not> str_in ''You have no saved hands'' (resp_text response)
      \<longrightarrow> fst (scrape_bbo_hands srv html_parser utc_offset url silent w) =
            map_option (Pair (html_parser (resp_text response)))
              (locate_table (html_parser (resp_text response))))"
proof (intro conjI impI)
  assume "table_selectors = pre @ sel # post \<and> (\<forall>s \<in> set pre. select_one soup s = None)
      \<and> select_one soup sel = Some t"
  then have "try_selectors soup table_selectors = Some t"
    using try_selectors_first_match [of pre soup sel t post] by simp
  then show "locate_table soup = Some t"
    by (simp add: locate_table_def)
next
  assume "\<forall>s \<in> set table_selectors. select_one soup s = None"
  then have "try_selectors soup table_selectors = None"
    by (rule try_selectors_none)
  then show "locate_table soup = List.find hand_record_like (find_all ''table'' soup)"
    by (simp add: locate_table_def generic_scan_def)
next
  assume h: "srv (sent w @ [precheck_request w]) = Inr refresh_resp
      \<and> \<not> str_in ''login.php'' (resp_url refresh_resp)
      \<and> srv (sent w @ [precheck_request w, data_request w url]) = Inr response
      \<and> \<not> str_in ''login.php'' (resp_url response)
      \<and> \<not> str_in ''Javascript support is needed'' (resp_text response)
      \<and> \<not> str_in ''You have no saved hands'' (resp_text response)"
  then have "scrape_bbo_hands srv html_parser utc_offset url silent w =
           scrape_parse html_parser silent response (data_fetched silent url w)"
    using scrape_direct by blast
  then show "fst (scrape_bbo_hands srv html_parser utc_offset url silent w) =
            map_option (Pair (html_parser (resp_text response)))
              (locate_table (html_parser (resp_text response)))"
    using h by (simp add: scrape_parse_locate)
qed

lemma generic_table_like: "hand_record_like generic_table"
  by (simp add: hand_record_like_def find_all_def table_defs lower_def lower_char_def
        latin_capitals_def latin_smalls_def)

lemma select_samples:
  "select_one doc_generic_then_body (Tag_class ''table'' ''body'') = Some body_table"
  "select_one doc_hands_then_results (Tag_class ''table'' ''body'') = None"
  "select_one doc_hands_then_results (Tag_id ''table'' ''hand_results'') = Some results_table"
  "select_one doc_hands_then_results (Tag_class ''table'' ''hands'') = Some hands_table"
  "\<forall>s \<in> set table_selectors. select_one doc_generic_only s = None"
  by (simp_all add: select_one_def table_defs table_selectors_def)

lemma generic_samples:
  "List.find hand_record_like (find_all ''table'' doc_generic_then_body) = Some generic_table"
  "List.find hand_record_like (find_all ''table'' doc_generic_only) = Some generic_table"
  using generic_table_like
  by (simp_all add: find_all_def doc_generic_then_body_def doc_generic_only_def generic_table_def body_table_def)

theorem locate_table_strict_order_witness:
  "List.find hand_record_like (find_all ''table'' doc_generic_then_body) = Some generic_table
   \<and> locate_table doc_generic_then_body = Some body_table
   \<and> select_one doc_hands_then_results (Tag_class ''table'' ''hands'') = Some hands_table
   \<and> locate_table doc_hands_then_results = Some results_table
   \<and> locate_table doc_generic_only = Some generic_table
   \<and> fst (scrape_bbo_hands hands_server sample_parser 0 hands_url True fresh_world)
        = Some (doc_generic_then_body, body_table)"
proof -
  have a: "table_selectors = [] @ Tag_class ''table'' ''body'' #
             [Tag_id ''table'' ''hand_results'', Tag_class ''table'' ''hands'',
              Tag_class ''table'' ''handlist'']"
    by (simp add: table_selectors_def)
  have b: "table_selectors = [Tag_class ''table'' ''body''] @ Tag_id ''table'' ''hand_results'' #
             [Tag_class ''table'' ''hands'', Tag_class ''table'' ''handlist'']"
    by (simp add: table_selectors_def)
  have c: "\<forall>s \<in> set [Tag_class ''table'' ''body'']. select_one doc_hands_then_results s = None"
    by (simp add: select_samples)
  have d: "hands_server (sent fresh_world @ [precheck_request fresh_world]) = Inr landing_ok
      \<and> \<not> str_in ''login.php'' (resp_url landing_ok)
      \<and> hands_server (sent fresh_world @ [precheck_request fresh_world, data_request fresh_world hands_url])
           = Inr hands_page
      \<and> \<not> str_in ''login.php'' (resp_url hands_page)
      \<and> \<not> str_in ''Javascript support is needed'' (resp_text hands_page)
      \<and> \<not> str_in ''You have no saved hands'' (resp_text hands_page)"
    by (simp add: server_defs)
  have e: "sample_parser (resp_text hands_page) = doc_generic_then_body"
    by (simp add: server_defs)
  have f: "locate_table doc_generic_then_body = Some body_table"
    using a select_samples(1)
      locate_table_strict_order [of "[]" "Tag_class ''table'' ''body''" _ doc_generic_then_body body_table]
    by simp
  have g: "locate_table doc_hands_then_results = Some results_table"
    using b c select_samples(3)
      locate_table_strict_order [of "[Tag_class ''table'' ''body'']" "Tag_id ''table'' ''hand_results''" _
        doc_hands_then_results results_table]
    by simp
  have h: "locate_table doc_generic_only = Some generic_table"
    using select_samples(5) generic_samples(2)
      locate_table_strict_order [where soup = doc_generic_only]
    by simp
  have i: "fst (scrape_bbo_hands hands_server sample_parser 0 hands_url True fresh_world)
        = Some (doc_generic_then_body, body_table)"
    using d e f
      locate_table_strict_order [where srv = hands_server and w = fresh_world
        and refresh_resp = landing_ok and response = hands_page and url = hands_url
        and html_parser = sample_parser and utc_offset = 0 and silent = True]
    by simp
  show ?thesis
    using f g h i generic_samples(1) select_samples(4) by simp
qed

section \<open>Fetching: the no-saved-hands marker\<close>

lemma scrape_after_precheck:
  assumes "srv (sent w @ [precheck_request w]) = Inr refresh_resp"
    and "\<not> str_in ''login.php'' (resp_url refresh_resp)"
  shows "scrape_bbo_hands srv html_parser utc_offset url silent w =
           scrape_data srv html_parser utc_offset url silent
             (w\<lparr>sent := sent w @ [precheck_request w]\<rparr>)"
  using assms by (simp add: scrape_bbo_hands_def send_def precheck_request_def)

lemma scrape_data_send:
  "send srv GET url data_headers []
     (unless_silent silent (St_info ''Retrieving data from BBO...'')
        (emit (Log_info (''Fetching: '' @ url)) (w\<lparr>sent := sent w @ [precheck_request w]\<rparr>)))
   = (srv (sent w @ [precheck_request w, data_request w url]), data_fetched silent url w)"
  by (simp add: send_def data_request_def data_fetched_def emit_def unless_silent_def Let_def)

lemma scrape_via_handshake:
  assumes "srv (sent w @ [precheck_request w]) = Inr refresh_resp"
    and "\<not> str_in ''login.php'' (resp_url refresh_resp)"
    and "srv (sent w @ [precheck_request w, data_request w url]) = Inr response"
    and "\<not> str_in ''login.php'' (resp_url response)"
    and "str_in ''Javascript support is needed'' (resp_text response)"
    and "srv (sent (after_handshake srv utc_offset silent url w)
                @ [refetch_request (after_handshake srv utc_offset silent url w) url])
           = Inr response2"
  shows "scrape_bbo_hands srv html_parser utc_offset url silent w =
           scrape_parse html_parser silent response2
             ((after_handshake srv utc_offset silent url w)
                \<lparr>sent := sent (after_handshake srv utc_offset silent url w)
                          @ [refetch_request (after_handshake srv utc_offset silent url w) url]\<rparr>)"
proof -
  let ?w4 = "after_handshake srv utc_offset silent url w"
  have "send srv GET url data_headers [] ?w4
          = (Inr response2, ?w4\<lparr>sent := sent ?w4 @ [refetch_request ?w4 url]\<rparr>)"
    using assms(6) by (simp add: send_def refetch_request_def)
  then have "scrape_data srv html_parser utc_offset url silent
               (w\<lparr>sent := sent w @ [precheck_request w]\<rparr>)
          = scrape_parse html_parser silent response2
              (?w4\<lparr>sent := sent ?w4 @ [refetch_request ?w4 url]\<rparr>)"
    unfolding scrape_data_def Let_def scrape_data_send after_handshake_def
    using assms(3,4,5) by simp
  then show ?thesis
    using assms(1,2) scrape_after_precheck [of srv w refresh_resp html_parser utc_offset url silent]
    by simp
qed

text \<open>
  C4, as the code has it. When the response that is finally examined (the data
  response, or its re-fetch after a timezone handshake) contains the no-saved-hands
  marker, the fetch returns \<^verbatim>\<open>(None, None)\<close> and logs that no hands were found.
\<close>

theorem scrape_no_saved_hands:
  "(str_in ''You have no saved hands'' (resp_text response)
      \<longrightarrow> scrape_parse html_parser silent response w' = (None, emit (Log_info ''No hands found'') w'))
   \<and> (srv (sent w @ [precheck_request w]) = Inr refresh_resp
      \<and> \<not> str_in ''login.php'' (resp_url refresh_resp)
      \<and> srv (sent w @ [precheck_request w, data_request w url]) = Inr response
      \<and> \<not> str_in ''login.php'' (resp_url response)
      \<and> \<not> str_in ''Javascript support is needed'' (resp_text response)
      \<and> str_in ''You have no saved hands'' (resp_text response)
      \<longrightarrow> scrape_bbo_hands srv html_parser utc_offset url silent w =
            (None, emit (Log_info ''No hands found'') (data_fetched silent url w)))
   \<and> (srv (sent w @ [precheck_request w]) = Inr refresh_resp
      \<and> \<not> str_in ''login.php'' (resp_url refresh_resp)
      \<and> srv (sent w @ [precheck_request w, data_request w url]) = Inr first_response
      \<and> \<not> str_in ''login.php'' (resp_url first_response)
      \<and> str_in ''Javascript support is needed'' (resp_text first_response)
      \<and> srv (sent (after_handshake srv utc_offset silent url w)
                @ [refetch_request (after_handshake srv utc_offset silent url w) url])
           = Inr response
      \<and> str_in ''You have no saved hands'' (resp_text response)
      \<longrightarrow> scrape_bbo_hands srv html_parser utc_offset url silent w =
            (None, emit (Log_info ''No hands found'')
                     ((after_handshake srv utc_offset silent url w)
                        \<lparr>sent := sent (after_handshake srv utc_offset silent url w)
                           @ [refetch_request (after_handshake srv utc_offset silent url w) url]\<rparr>)))"
proof (intro conjI impI)
  assume "str_in ''You have no saved hands'' (resp_text response)"
  then show "scrape_parse html_parser silent response w' = (None, emit (Log_info ''No hands found'') w')"
    by (simp add: scrape_parse_def)
next
  assume h: "srv (sent w @ [precheck_request w]) = Inr refresh_resp
      \<and> \<not> str_in ''login.php'' (resp_url refresh_resp)
      \<and> srv (sent w @ [precheck_request w, data_request w url]) = Inr response
      \<and> \<not> str_in ''login.php'' (resp_url response)
      \<and> \<not> str_in ''Javascript support is needed'' (resp_text response)
      \<and> str_in ''You have no saved hands'' (resp_text response)"
  then have "scrape_bbo_hands srv html_parser utc_offset url silent w =
           scrape_parse html_parser silent response (data_fetched silent url w)"
    using scrape_direct by blast
  then show "scrape_bbo_hands srv html_parser utc_offset url silent w =
            (None, emit (Log_info ''No hands found'') (data_fetched silent url w))"
    using h by (simp add: scrape_parse_def)
next
  assume h: "srv (sent w @ [precheck_request w]) = Inr refresh_resp
      \<and> \<not> str_in ''login.php'' (resp_url refresh_resp)
      \<and> srv (sent w @ [precheck_request w, data_request w url]) = Inr first_response
      \<and> \<not> str_in ''login.php'' (resp_url first_response)
      \<and> str_in ''Javascript support is needed'' (resp_text first_response)
      \<and> srv (sent (after_handshake srv utc_offset silent url w)
                @ [refetch_request (after_handshake srv utc_offset silent url w) url])
           = Inr response
      \<and> str_in ''You have no saved hands'' (resp_text response)"
  then have "scrape_bbo_hands srv html_parser utc_offset url silent w =
           scrape_parse html_parser silent response
             ((after_handshake srv utc_offset silent url w)
                \<lparr>sent := sent (after_handshake srv utc_offset silent url w)
                   @ [refetch_request (after_handshake srv utc_offset silent url w) url]\<rparr>)"
    using scrape_via_handshake by blast
  then show "scrape_bbo_hands srv html_parser utc_offset url silent w =
            (None, emit (Log_info ''No hands found'')
                     ((after_handshake srv utc_offset silent url w)
                        \<lparr>sent := sent (after_handshake srv utc_offset silent url w)
                           @ [refetch_request (after_handshake srv utc_offset silent url w) url]\<rparr>))"
    using h by (simp add: scrape_parse_def)
qed

text \<open>
  The caller cannot tell the outcomes apart: the value returned for a page with the
  marker is the value returned for an expired session and for a page without a table.
\<close>

theorem scrape_outcomes_coincide_counterexample:
  "fst (scrape_bbo_hands (page_server no_hands_page) sample_parser 0 hands_url True fresh_world)
     = fst (scrape_bbo_hands expired_server sample_parser 0 hands_url True fresh_world)
   \<and> fst (scrape_bbo_hands (page_server no_hands_page) sample_parser 0 hands_url True fresh_world)
     = fst (scrape_bbo_hands (page_server maintenance_page) sample_parser 0 hands_url True fresh_world)"
proof -
  have a: "fst (scrape_bbo_hands (page_server no_hands_page) sample_parser 0 hands_url True fresh_world) = None"
    by (simp add: scrape_bbo_hands_def scrape_data_def scrape_parse_def send_def emit_def
          unless_silent_def page_defs server_defs)
  have b: "fst (scrape_bbo_hands expired_server sample_parser 0 hands_url True fresh_world) = None"
    by (simp add: scrape_bbo_hands_def send_def emit_def expired_server_def
          login_redirect_response_def fresh_world_def)
  have c: "locate_table doc_no_table = None"
    by (simp add: locate_table_def table_selectors_def select_one_def generic_scan_def
          find_all_def doc_no_table_def)
  have d: "fst (scrape_bbo_hands (page_server maintenance_page) sample_parser 0 hands_url True fresh_world) = None"
    using c
    by (simp add: scrape_bbo_hands_def scrape_data_def scrape_parse_def send_def emit_def
          unless_silent_def page_defs server_defs)
  show ?thesis using a b d by simp
qed


lemma handshake_sample:
  "handle_timezone_redirect js_server 0 (data_fetched True hands_url fresh_world) =
     (True,
      \<lparr>sess_headers =
          [(''Content-Type'', ''application/x-www-form-urlencoded''),
           (''Referer'', ''https://www.bridgebase.com/myhands/index.php'')],
        sent =
          [precheck_request fresh_world, data_request fresh_world hands_url,
           \<lparr>req_method = POST, req_url = tz_url,
            req_headers =
              [(''Content-Type'', ''application/x-www-form-urlencoded''),
               (''Referer'', ''https://www.bridgebase.com/myhands/index.php'')],
            req_data = [(''offset'', ''0'')]\<rparr>],
        events =
          [Log_info (''Fetching: '' @ hands_url),
           Log_info ''Using timezone offset: 0 minutes'',
           Log_info ''Successfully handled timezone redirect'']\<rparr>)"
  by (simp add: handle_timezone_redirect_def timezone_submit_def data_fetched_def
        get_local_timezone_offset_def py_int_def str_int_def str_nat.simps [of 0]
        update_headers_def dict_update_def emit_def send_def Let_def js_server_def
        landing_ok_def fresh_world_def)

lemma js_refetch_sample:
  "js_server (sent (after_handshake js_server 0 True hands_url fresh_world)
                @ [refetch_request (after_handshake js_server 0 True hands_url fresh_world) hands_url])
     = Inr no_hands_page"
  by (simp add: after_handshake_def unless_silent_def handshake_sample refetch_request_def)
     (simp add: js_server_def precheck_request_def data_request_def hands_url_def
        landing_url_def tz_url_def)

theorem scrape_no_saved_hands_witness:
  "scrape_parse sample_parser True no_hands_page fresh_world
     = (None, emit (Log_info ''No hands found'') fresh_world)
   \<and> page_server no_hands_page (sent fresh_world @ [precheck_request fresh_world]) = Inr landing_ok
   \<and> \<not> str_in ''login.php'' (resp_url landing_ok)
   \<and> page_server no_hands_page
        (sent fresh_world @ [precheck_request fresh_world, data_request fresh_world hands_url])
        = Inr no_hands_page
   \<and> \<not> str_in ''login.php'' (resp_url no_hands_page)
   \<and> \<not> str_in ''Javascript support is needed'' (resp_text no_hands_page)
   \<and> str_in ''You have no saved hands'' (resp_text no_hands_page)
   \<and> scrape_bbo_hands (page_server no_hands_page) sample_parser 0 hands_url True fresh_world
        = (None, emit (Log_info ''No hands found'') (data_fetched True hands_url fresh_world))
   \<and> js_server (sent fresh_world @ [precheck_request fresh_world, data_request fresh_world hands_url])
        = Inr js_page
   \<and> str_in ''Javascript support is needed'' (resp_text js_page)
   \<and> fst (scrape_bbo_hands js_server sample_parser 0 hands_url True fresh_world) = None"
proof -
  have a: "page_server no_hands_page (sent fresh_world @ [precheck_request fresh_world]) = Inr landing_ok
      \<and> \<not> str_in ''login.php'' (resp_url landing_ok)
      \<and> page_server no_hands_page
            (sent fresh_world @ [precheck_request fresh_world, data_request fresh_world hands_url])
          = Inr no_hands_page
      \<and> \<not> str_in ''login.php'' (resp_url no_hands_page)
      \<and> \<not> str_in ''Javascript support is needed'' (resp_text no_hands_page)
      \<and> str_in ''You have no saved hands'' (resp_text no_hands_page)"
    by (simp add: page_defs server_defs)
  have b: "js_server (sent fresh_world @ [precheck_request fresh_world]) = Inr landing_ok
      \<and> \<not> str_in ''login.php'' (resp_url landing_ok)
      \<and> js_server (sent fresh_world @ [precheck_request fresh_world, data_request fresh_world hands_url])
          = Inr js_page
      \<and> \<not> str_in ''login.php'' (resp_url js_page)
      \<and> str_in ''Javascript support is needed'' (resp_text js_page)"
    by (simp add: page_defs server_defs)
  have c: "str_in ''You have no saved hands'' (resp_text no_hands_page)"
    by (simp add: page_defs)
  have d: "scrape_bbo_hands (page_server no_hands_page) sample_parser 0 hands_url True fresh_world
        = (None, emit (Log_info ''No hands found'') (data_fetched True hands_url fresh_world))"
    using a
      scrape_no_saved_hands [where srv = "page_server no_hands_page" and w = fresh_world
        and refresh_resp = landing_ok and response = no_hands_page and url = hands_url
        and html_parser = sample_parser and utc_offset = 0 and silent = True]
    by blast
  have e: "fst (scrape_bbo_hands js_server sample_parser 0 hands_url True fresh_world) = None"
    using b c js_refetch_sample
      scrape_no_saved_hands [where srv = js_server and w = fresh_world
        and refresh_resp = landing_ok and first_response = js_page and response = no_hands_page
        and url = hands_url and html_parser = sample_parser and utc_offset = 0 and silent = True]
    by simp
  have f: "scrape_parse sample_parser True no_hands_page fresh_world
     = (None, emit (Log_info ''No hands found'') fresh_world)"
    using c scrape_no_saved_hands [where response = no_hands_page and html_parser = sample_parser
        and silent = True and w' = fresh_world]
    by blast
  show ?thesis using a b d e f by simp
qed

section \<open>Timezone handshake: the offset and the protocol\<close>

lemma map_of_dict_set: "map_of (dict_set k v d) = (map_of d)(k \<mapsto> v)"
  by (induction d) (auto simp: fun_eq_iff)

lemma dict_has_map_of: "dict_has k d \<longleftrightarrow> map_of d k \<noteq> None"
  by (simp add: dict_has_def map_of_eq_None_iff)

lemma dict_has_dict_set: "dict_has k' (dict_set k v d) \<longleftrightarrow> k' = k \<or> dict_has k' d"
  by (simp add: dict_has_map_of map_of_dict_set)

lemma dict_update_Cons: "dict_update d ((k, v) # other) = dict_update (dict_set k v d) other"
  by (simp add: dict_update_def)

lemma tz_headers_referer: "map_of (tz_headers w) ''Referer'' = Some landing_url"
  by (simp add: tz_headers_def dict_update_Cons map_of_dict_set landing_url_def)

lemma py_int_div: "py_int (of_int s / 60) = (if 0 \<le> s then s div 60 else - ((- s) div 60))"
proof (cases "0 \<le> s")
  case True
  then have "(0::rat) \<le> of_int s / 60" by simp
  moreover have "\<lfloor>(of_int s / 60 :: rat)\<rfloor> = s div 60"
    using floor_divide_of_int_eq [of s 60, where ?'a = rat] by simp
  ultimately show ?thesis using True by (simp add: py_int_def)
next
  case False
  then have neg: "\<not> (0::rat) \<le> of_int s / 60" by (simp add: divide_less_0_iff not_le)
  have "\<lceil>(of_int s / 60 :: rat)\<rceil> = - \<lfloor>(of_int (- s) / 60 :: rat)\<rfloor>"
    by (simp add: ceiling_def)
  also have "\<dots> = - ((- s) div 60)"
    using floor_divide_of_int_eq [of "- s" 60, where ?'a = rat] by simp
  finally show ?thesis using False neg by (simp add: py_int_def)
qed

lemma offset_in_range:
  "- 86400 < u \<Longrightarrow> u < 86400 \<Longrightarrow>
     get_local_timezone_offset u = Inr (if 0 \<le> u then u div 60 else - ((- u) div 60))"
  by (simp add: get_local_timezone_offset_def py_int_div)

lemma offset_out_of_range:
  "\<not> (- 86400 < u \<and> u < 86400) \<Longrightarrow> get_local_timezone_offset u = Inl ValueError"
  by (auto simp: get_local_timezone_offset_def)

lemma handshake_post:
  "send srv POST tz_url [] [(''offset'', Some (str_int offset))]
     (update_headers
        [(''Content-Type'', ''application/x-www-form-urlencoded''),
         (''Referer'', ''https://www.bridgebase.com/myhands/index.php'')]
        (emit e w))
   = (srv (sent w @ [tz_post_request w offset]),
      w\<lparr>sess_headers := tz_headers w, events := events w @ [e],
        sent := sent w @ [tz_post_request w offset]\<rparr>)"
  by (simp add: send_def update_headers_def emit_def tz_post_request_def tz_headers_def Let_def)

lemma handshake_alternative:
  "timezone_alternative srv offset
     (w\<lparr>sess_headers := tz_headers w, events := evs,
        sent := sent w @ [tz_post_request w offset]\<rparr>)
   = (case srv (sent w @ [tz_post_request w offset, tz_get_request w offset]) of
        Inl e \<Rightarrow> False
      | Inr alt_response \<Rightarrow> str_in ''logout.php'' (resp_text alt_response),
      w\<lparr>sess_headers := tz_headers w,
        events := evs @
          [case srv (sent w @ [tz_post_request w offset, tz_get_request w offset]) of
             Inl e \<Rightarrow> Log_error ''Error handling timezone redirect''
           | Inr alt_response \<Rightarrow>
               if str_in ''logout.php'' (resp_text alt_response)
               then Log_info ''Successfully handled timezone redirect via alternative URL''
               else Log_warning ''Failed to handle timezone redirect''],
        sent := sent w @ [tz_post_request w offset, tz_get_request w offset]\<rparr>)"
  by (simp add: timezone_alternative_def send_def tz_get_request_def emit_def Let_def
        split: sum.splits)

lemma submit_accepted:
  assumes "srv (sent w @ [tz_post_request w offset]) = Inr response"
    and "str_in ''logout.php'' (resp_text response)"
  shows "fst (timezone_submit srv offset w) = True"
    and "sent (snd (timezone_submit srv offset w)) = sent w @ [tz_post_request w offset]"
  unfolding timezone_submit_def Let_def handshake_post
  using assms by (simp_all add: emit_def)

lemma submit_retry:
  assumes "srv (sent w @ [tz_post_request w offset]) = Inr response"
    and "\<not> str_in ''logout.php'' (resp_text response)"
  shows "fst (timezone_submit srv offset w)
           = (case srv (sent w @ [tz_post_request w offset, tz_get_request w offset]) of
                Inl e \<Rightarrow> False
              | Inr alt_response \<Rightarrow> str_in ''logout.php'' (resp_text alt_response))"
    and "sent (snd (timezone_submit srv offset w))
           = sent w @ [tz_post_request w offset, tz_get_request w offset]"
  unfolding timezone_submit_def Let_def handshake_post
  using assms by (simp_all add: handshake_alternative)

lemma submit_raised:
  assumes "srv (sent w @ [tz_post_request w offset]) = Inl e"
  shows "fst (timezone_submit srv offset w) = False"
    and "sent (snd (timezone_submit srv offset w)) = sent w @ [tz_post_request w offset]"
  unfolding timezone_submit_def Let_def handshake_post
  using assms by (simp_all add: emit_def)

lemma submit_first_request:
  "\<exists>rest. sent (snd (timezone_submit srv offset w)) = sent w @ tz_post_request w offset # rest"
proof (cases "srv (sent w @ [tz_post_request w offset])")
  case (Inl e)
  then show ?thesis using submit_raised(2) by fastforce
next
  case (Inr response)
  show ?thesis
  proof (cases "str_in ''logout.php'' (resp_text response)")
    case True
    then show ?thesis using Inr submit_accepted(2) by fastforce
  next
    case False
    then show ?thesis using Inr submit_retry(2) by fastforce
  qed
qed

lemma handshake_computed:
  "get_local_timezone_offset utc_offset = Inr offset \<Longrightarrow>
     handle_timezone_redirect srv utc_offset w = timezone_submit srv offset w"
  by (simp add: handle_timezone_redirect_def)

lemma handshake_not_computed:
  "get_local_timezone_offset utc_offset = Inl e \<Longrightarrow>
     handle_timezone_redirect srv utc_offset w
       = (False, emit (Log_error ''Error handling timezone redirect'') w)"
  by (simp add: handle_timezone_redirect_def)

lemma handshake_extends:
  "\<exists>rest. sent (snd (handle_timezone_redirect srv utc_offset w)) = sent w @ rest"
proof (cases "get_local_timezone_offset utc_offset")
  case (Inl e)
  then show ?thesis by (simp add: handshake_not_computed emit_def)
next
  case (Inr offset)
  then show ?thesis
    using submit_first_request [of srv offset w] by (auto simp: handshake_computed)
qed

text \<open>
  C6, as the code has it. The offset is a function of the machine's UTC offset alone.
  For a UTC offset strictly between minus and plus 24 hours it is that offset in minutes
  with the fraction cut off towards zero, which is the rounded number of minutes whenever
  the UTC offset is a whole number of minutes, and the first request of the handshake
  carries exactly this value, in decimal, as its only form field \<^verbatim>\<open>offset\<close>. For any
  other UTC offset the computation raises, and the handshake returns \<open>False\<close> without
  sending a request.
\<close>

theorem timezone_offset_truncates:
  "(- 86400 < utc_offset \<and> utc_offset < 86400
      \<longrightarrow> get_local_timezone_offset utc_offset =
            Inr (if 0 \<le> utc_offset then utc_offset div 60 else - ((- utc_offset) div 60))
          \<and> (60 dvd utc_offset
               \<longrightarrow> get_local_timezone_offset utc_offset
                     = Inr (round (of_int utc_offset / 60 :: rat)))
          \<and> length (sent w) < length (sent (snd (handle_timezone_redirect srv utc_offset w)))
          \<and> req_data (sent (snd (handle_timezone_redirect srv utc_offset w)) ! length (sent w))
               = [(''offset'',
                   str_int (if 0 \<le> utc_offset then utc_offset div 60
                            else - ((- utc_offset) div 60)))])
   \<and> (\<not> (- 86400 < utc_offset \<and> utc_offset < 86400)
      \<longrightarrow> get_local_timezone_offset utc_offset = Inl ValueError
          \<and> fst (handle_timezone_redirect srv utc_offset w) = False
          \<and> sent (snd (handle_timezone_redirect srv utc_offset w)) = sent w)"
proof (intro conjI impI)
  assume r: "- 86400 < utc_offset \<and> utc_offset < 86400"
  let ?m = "if 0 \<le> utc_offset then utc_offset div 60 else - ((- utc_offset) div 60)"
  show a: "get_local_timezone_offset utc_offset = Inr ?m"
    using r by (simp add: offset_in_range)
  show "get_local_timezone_offset utc_offset = Inr (round (of_int utc_offset / 60 :: rat))"
    if "60 dvd utc_offset"
  proof -
    from that obtain k where k: "utc_offset = 60 * k" by (auto simp: dvd_def)
    then have "(of_int utc_offset / 60 :: rat) = of_int k" by simp
    then have "round (of_int utc_offset / 60 :: rat) = k" by simp
    moreover have "?m = k"
      using k by auto
    ultimately show ?thesis using a by simp
  qed
  obtain rest where rest: "sent (snd (handle_timezone_redirect srv utc_offset w))
            = sent w @ tz_post_request w ?m # rest"
    using submit_first_request [of srv ?m w] handshake_computed [OF a] by auto
  then show "length (sent w) < length (sent (snd (handle_timezone_redirect srv utc_offset w)))"
    by simp
  show "req_data (sent (snd (handle_timezone_redirect srv utc_offset w)) ! length (sent w))
               = [(''offset'', str_int ?m)]"
    using rest by (simp add: tz_post_request_def)
next
  assume r: "\<not> (- 86400 < utc_offset \<and> utc_offset < 86400)"
  then show b: "get_local_timezone_offset utc_offset = Inl ValueError"
    by (rule offset_out_of_range)
  show "fst (handle_timezone_redirect srv utc_offset w) = False"
    by (simp add: handshake_not_computed [OF b])
  show "sent (snd (handle_timezone_redirect srv utc_offset w)) = sent w"
    by (simp add: handshake_not_computed [OF b] emit_def)
qed

text \<open>
  A UTC offset of 100 seconds is one minute and two thirds: the code yields 1, rounding
  yields 2.
\<close>

theorem timezone_offset_round_counterexample:
  "get_local_timezone_offset 100 = Inr 1 \<and> round (of_int 100 / 60 :: rat) = 2"
  by code_simp

lemma str_int_samples: "str_int 330 = ''330''" "str_int (- 300) = ''-300''"
  by (simp_all add: str_int_def str_nat.simps [of 330] str_nat.simps [of 33]
        str_nat.simps [of 3] str_nat.simps [of 300] str_nat.simps [of 30])

theorem timezone_offset_truncates_witness:
  "- 86400 < (19800 :: int) \<and> (19800 :: int) < 86400 \<and> 60 dvd (19800 :: int)
   \<and> get_local_timezone_offset 19800 = Inr 330
   \<and> round (of_int 19800 / 60 :: rat) = 330
   \<and> get_local_timezone_offset (- 18000) = Inr (- 300)
   \<and> get_local_timezone_offset 1172 = Inr 19
   \<and> req_data (sent (snd (handle_timezone_redirect down_server 19800 fresh_world)) ! 0)
        = [(''offset'', ''330'')]
   \<and> req_data (sent (snd (handle_timezone_redirect down_server (- 18000) fresh_world)) ! 0)
        = [(''offset'', ''-300'')]
   \<and> get_local_timezone_offset 86400 = Inl ValueError
   \<and> fst (handle_timezone_redirect down_server 86400 fresh_world) = False
   \<and> sent (snd (handle_timezone_redirect down_server 86400 fresh_world)) = []"
proof -
  have d: "60 dvd (19800 :: int)" by simp
  have e: "round (of_int 19800 / 60 :: rat) = 330" by code_simp
  show ?thesis
    using d e str_int_samples
      timezone_offset_truncates [of 19800 fresh_world down_server]
      timezone_offset_truncates [of "- 18000" fresh_world down_server]
      timezone_offset_truncates [of 1172 fresh_world down_server]
      timezone_offset_truncates [of 86400 fresh_world down_server]
    by (simp add: fresh_world_def)
qed

text \<open>
  C7. When the offset can be computed, the handshake first POSTs it as form data to
  the landing endpoint, with the Referer header set to that endpoint. A reply with the
  logout marker ends it with \<open>True\<close> after this one request. A reply without the
  marker is followed by exactly one more request, the GET of the same endpoint with the
  offset as query parameter, and the result is whether that reply has the marker. An
  exception gives \<open>False\<close>: raised by either request, after the requests sent so far,
  or raised by the computation of the offset, before any request. These cases are all
  there are, so the result is a boolean in every execution.
\<close>

theorem handshake_post_then_one_retry:
  "req_method (tz_post_request w offset) = POST
   \<and> req_url (tz_post_request w offset) = landing_url @ ''?&from_login=1''
   \<and> map_of (req_headers (tz_post_request w offset)) ''Referer'' = Some landing_url
   \<and> req_data (tz_post_request w offset) = [(''offset'', str_int offset)]
   \<and> req_method (tz_get_request w offset) = GET
   \<and> req_url (tz_get_request w offset) = landing_url @ ''?offset='' @ str_int offset
   \<and> (get_local_timezone_offset utc_offset = Inr offset
        \<and> srv (sent w @ [tz_post_request w offset]) = Inr response
        \<and> str_in ''logout.php'' (resp_text response)
        \<longrightarrow> fst (handle_timezone_redirect srv utc_offset w) = True
            \<and> sent (snd (handle_timezone_redirect srv utc_offset w))
                 = sent w @ [tz_post_request w offset])
   \<and> (get_local_timezone_offset utc_offset = Inr offset
        \<and> srv (sent w @ [tz_post_request w offset]) = Inr response
        \<and> \<not> str_in ''logout.php'' (resp_text response)
        \<longrightarrow> fst (handle_timezone_redirect srv utc_offset w)
              = (case srv (sent w @ [tz_post_request w offset, tz_get_request w offset]) of
                   Inl e \<Rightarrow> False
                 | Inr alt_response \<Rightarrow> str_in ''logout.php'' (resp_text alt_response))
            \<and> sent (snd (handle_timezone_redirect srv utc_offset w))
                 = sent w @ [tz_post_request w offset, tz_get_request w offset])
   \<and> (get_local_timezone_offset utc_offset = Inr offset
        \<and> srv (sent w @ [tz_post_request w offset]) = Inl e
        \<longrightarrow> fst (handle_timezone_redirect srv utc_offset w) = False
            \<and> sent (snd (handle_timezone_redirect srv utc_offset w))
                 = sent w @ [tz_post_request w offset])
   \<and> (get_local_timezone_offset utc_offset = Inl e
        \<longrightarrow> fst (handle_timezone_redirect srv utc_offset w) = False
            \<and> sent (snd (handle_timezone_redirect srv utc_offset w)) = sent w)"
proof (intro conjI impI)
  show "req_method (tz_post_request w offset) = POST"
    by (simp add: tz_post_request_def)
  show "req_url (tz_post_request w offset) = landing_url @ ''?&from_login=1''"
    by (simp add: tz_post_request_def tz_url_def landing_url_def)
  show "map_of (req_headers (tz_post_request w offset)) ''Referer'' = Some landing_url"
    by (simp add: tz_post_request_def tz_headers_referer)
  show "req_data (tz_post_request w offset) = [(''offset'', str_int offset)]"
    by (simp add: tz_post_request_def)
  show "req_method (tz_get_request w offset) = GET"
    by (simp add: tz_get_request_def)
  show "req_url (tz_get_request w offset) = landing_url @ ''?offset='' @ str_int offset"
    by (simp add: tz_get_request_def alt_url_def landing_url_def)
next
  assume h: "get_local_timezone_offset utc_offset = Inr offset
        \<and> srv (sent w @ [tz_post_request w offset]) = Inr response
        \<and> str_in ''logout.php'' (resp_text response)"
  then have "handle_timezone_redirect srv utc_offset w = timezone_submit srv offset w"
    by (simp add: handshake_computed)
  then show "fst (handle_timezone_redirect srv utc_offset w) = True"
    and "sent (snd (handle_timezone_redirect srv utc_offset w))
                 = sent w @ [tz_post_request w offset]"
    using h submit_accepted [of srv w offset response] by simp_all
next
  assume h: "get_local_timezone_offset utc_offset = Inr offset
        \<and> srv (sent w @ [tz_post_request w offset]) = Inr response
        \<and> \<not> str_in ''logout.php'' (resp_text response)"
  then have "handle_timezone_redirect srv utc_offset w = timezone_submit srv offset w"
    by (simp add: handshake_computed)
  then show "fst (handle_timezone_redirect srv utc_offset w)
              = (case srv (sent w @ [tz_post_request w offset, tz_get_request w offset]) of
                   Inl e \<Rightarrow> False
                 | Inr alt_response \<Rightarrow> str_in ''logout.php'' (resp_text alt_response))"
    and "sent (snd (handle_timezone_redirect srv utc_offset w))
                 = sent w @ [tz_post_request w offset, tz_get_request w offset]"
    using h submit_retry [of srv w offset response] by simp_all
next
  assume h: "get_local_timezone_offset utc_offset = Inr offset
        \<and> srv (sent w @ [tz_post_request w offset]) = Inl e"
  then have "handle_timezone_redirect srv utc_offset w = timezone_submit srv offset w"
    by (simp add: handshake_computed)
  then show "fst (handle_timezone_redirect srv utc_offset w) = False"
    and "sent (snd (handle_timezone_redirect srv utc_offset w))
                 = sent w @ [tz_post_request w offset]"
    using h submit_raised [of srv w offset e] by simp_all
next
  assume h: "get_local_timezone_offset utc_offset = Inl e"
  then show "fst (handle_timezone_redirect srv utc_offset w) = False"
    and "sent (snd (handle_timezone_redirect srv utc_offset w)) = sent w"
    by (simp_all add: handshake_not_computed emit_def)
qed

lemma sample_offsets:
  "get_local_timezone_offset 19800 = Inr 330"
  "get_local_timezone_offset 86400 = Inl ValueError"
  by (simp_all add: offset_in_range offset_out_of_range)

theorem handshake_post_then_one_retry_witness:
  "get_local_timezone_offset 19800 = Inr 330
   \<and> js_server (sent fresh_world @ [tz_post_request fresh_world 330]) = Inr landing_ok
   \<and> str_in ''logout.php'' (resp_text landing_ok)
   \<and> fst (handle_timezone_redirect js_server 19800 fresh_world) = True
   \<and> length (sent (snd (handle_timezone_redirect js_server 19800 fresh_world))) = 1
   \<and> alt_server (sent fresh_world @ [tz_post_request fresh_world 330]) = Inr js_page
   \<and> \<not> str_in ''logout.php'' (resp_text js_page)
   \<and> fst (handle_timezone_redirect alt_server 19800 fresh_world) = True
   \<and> length (sent (snd (handle_timezone_redirect alt_server 19800 fresh_world))) = 2
   \<and> down_server (sent fresh_world @ [tz_post_request fresh_world 330]) = Inl RequestException
   \<and> fst (handle_timezone_redirect down_server 19800 fresh_world) = False
   \<and> length (sent (snd (handle_timezone_redirect down_server 19800 fresh_world))) = 1
   \<and> get_local_timezone_offset 86400 = Inl ValueError
   \<and> fst (handle_timezone_redirect js_server 86400 fresh_world) = False
   \<and> length (sent (snd (handle_timezone_redirect js_server 86400 fresh_world))) = 0"
proof -
  have a: "js_server (sent fresh_world @ [tz_post_request fresh_world 330]) = Inr landing_ok
      \<and> str_in ''logout.php'' (resp_text landing_ok)"
    by (simp add: tz_sample_defs)
  have b: "alt_server (sent fresh_world @ [tz_post_request fresh_world 330]) = Inr js_page
      \<and> \<not> str_in ''logout.php'' (resp_text js_page)"
    by (simp add: tz_sample_defs)
  have c: "alt_server (sent fresh_world
             @ [tz_post_request fresh_world 330, tz_get_request fresh_world 330])
           = Inr landing_ok"
    by (simp add: tz_sample_defs)
  have d: "down_server (sent fresh_world @ [tz_post_request fresh_world 330])
           = Inl RequestException"
    by (simp add: tz_sample_defs)
  have e: "sent fresh_world = []"
    by (simp add: fresh_world_def)
  show ?thesis
    using a b c d e sample_offsets
      handshake_post_then_one_retry [of fresh_world 330 19800 js_server landing_ok]
      handshake_post_then_one_retry [of fresh_world 330 19800 alt_server js_page]
      handshake_post_then_one_retry [of fresh_world 330 19800 down_server _ RequestException]
      handshake_post_then_one_retry [of fresh_world 330 86400 js_server _ ValueError]
    by simp
qed

section \<open>Login: the submitted form data\<close>

lemma map_of_dict_update: "map_of (dict_update d other) = map_of d ++ map_of (rev other)"
proof (induction other arbitrary: d)
  case Nil
  then show ?case by simp
next
  case (Cons kv other)
  obtain k v where kv: "kv = (k, v)" by (cases kv)
  have "map_of (dict_update d (kv # other)) = map_of (dict_set k v d) ++ map_of (rev other)"
    using Cons.IH [of "dict_set k v d"] kv by (simp add: dict_update_Cons)
  also have "\<dots> = map_of d ++ ([k \<mapsto> v] ++ map_of (rev other))"
    by (simp add: map_of_dict_set fun_eq_iff map_add_def split: option.splits)
  also have "\<dots> = map_of d ++ map_of (rev (kv # other))"
    using kv by (simp add: map_of_append)
  finally show ?case .
qed

lemma keys_dict_set: "fst ` set (dict_set k v d) = insert k (fst ` set d)"
  using arg_cong [OF map_of_dict_set [of k v d], of dom]
  by (simp add: dom_map_of_conv_image_fst)

lemma distinct_dict_set: "distinct (map fst d) \<Longrightarrow> distinct (map fst (dict_set k v d))"
proof (induction d)
  case Nil
  then show ?case by simp
next
  case (Cons kv d)
  obtain k' v' where kv: "kv = (k', v')" by (cases kv)
  show ?case
  proof (cases "k' = k")
    case True
    then show ?thesis using Cons.prems kv by simp
  next
    case False
    then have "k' \<notin> fst ` set (dict_set k v d)"
      using Cons.prems kv by (simp add: keys_dict_set)
    then show ?thesis using Cons kv False by simp
  qed
qed

lemma map_of_rev_distinct: "distinct (map fst d) \<Longrightarrow> map_of (rev d) = map_of d"
  by (rule map_of_inject_set [THEN iffD2]) (simp_all add: rev_map [symmetric])

lemma discover_fold:
  "discover_hidden_fields soup = fold add_hidden_field (hidden_inputs soup) []"
  by (simp add: discover_hidden_fields_def)

lemma distinct_add_hidden_field:
  "distinct (map fst acc) \<Longrightarrow> distinct (map fst (add_hidden_field inp acc))"
  by (simp add: add_hidden_field_def distinct_dict_set split: option.splits)

lemma distinct_fold_hidden:
  "distinct (map fst acc) \<Longrightarrow> distinct (map fst (fold add_hidden_field inputs acc))"
  by (induction inputs arbitrary: acc) (simp_all add: distinct_add_hidden_field)

lemma distinct_discover: "distinct (map fst (discover_hidden_fields soup))"
  by (simp add: discover_fold distinct_fold_hidden)

lemma map_of_add_hidden_field:
  "map_of (add_hidden_field inp acc) n =
     (if attr inp ''name'' = Some n \<and> n \<noteq> [] then Some (attr inp ''value'') else map_of acc n)"
  by (auto simp: add_hidden_field_def map_of_dict_set split: option.splits)

lemma fold_hidden_last:
  "map_of (fold add_hidden_field inputs acc) n =
     (if n = [] \<or> filter (\<lambda>i. attr i ''name'' = Some n) inputs = [] then map_of acc n
      else Some (attr (last (filter (\<lambda>i. attr i ''name'' = Some n) inputs)) ''value''))"
proof (induction inputs arbitrary: acc)
  case Nil
  then show ?case by simp
next
  case (Cons inp inputs)
  show ?case
    by (simp add: Cons.IH map_of_add_hidden_field)
qed

lemma map_of_add_required_fields:
  "map_of (add_required_fields d) n =
     (case map_of d n of
        Some v \<Rightarrow> Some v
      | None \<Rightarrow>
          if n = ''t'' then Some (Some ''/myhands/index.php?'')
          else if n = ''count'' then Some (Some ''1'')
          else None)"
  by (simp add: add_required_fields_def add_target_field_def add_count_field_def
        dict_has_map_of dict_has_dict_set map_of_dict_set split: option.splits)

lemma distinct_add_required_fields:
  "distinct (map fst d) \<Longrightarrow> distinct (map fst (add_required_fields d))"
  by (simp add: add_required_fields_def add_target_field_def add_count_field_def
        distinct_dict_set)

lemma map_of_login_form_data:
  "map_of (login_form_data username password soup) n =
     (case map_of (add_required_fields (discover_hidden_fields soup)) n of
        Some v \<Rightarrow> Some v
      | None \<Rightarrow> map_of (login_base username password) n)"
proof -
  have "distinct (map fst (add_required_fields (discover_hidden_fields soup)))"
    by (simp add: distinct_add_required_fields distinct_discover)
  then have "map_of (rev (add_required_fields (discover_hidden_fields soup)))
               = map_of (add_required_fields (discover_hidden_fields soup))"
    by (rule map_of_rev_distinct)
  then show ?thesis
    by (simp add: login_form_data_def login_data_def login_base_def [symmetric]
          map_of_dict_update map_add_def)
qed

lemma sent_emit [simp]: "sent (emit e w) = sent w"
  by (simp add: emit_def)

lemma sess_headers_emit [simp]: "sess_headers (emit e w) = sess_headers w"
  by (simp add: emit_def)

lemma sent_update_headers [simp]: "sent (update_headers hs w) = sent w"
  by (simp add: update_headers_def)

lemma sess_headers_update_headers [simp]:
  "sess_headers (update_headers hs w) = dict_update (sess_headers w) hs"
  by (simp add: update_headers_def)

lemma log_hidden_field_keeps:
  "sent (log_hidden_field inp w) = sent w
   \<and> sess_headers (log_hidden_field inp w) = sess_headers w"
  by (simp add: log_hidden_field_def split: option.splits)

lemma fold_log_hidden_keeps:
  "sent (fold log_hidden_field inputs w) = sent w
   \<and> sess_headers (fold log_hidden_field inputs w) = sess_headers w"
  by (induction inputs arbitrary: w) (simp_all add: log_hidden_field_keeps)

lemma log_login_fields_keeps:
  "sent (log_login_fields soup w) = sent w
   \<and> sess_headers (log_login_fields soup w) = sess_headers w"
  by (simp add: log_login_fields_def Let_def fold_log_hidden_keeps)

lemma sent_failure_analysis [simp]: "sent (failure_analysis r w) = sent w"
  by (simp add: failure_analysis_def Let_def)

lemma sent_send: "sent (snd (send srv m url hs form w)) = sent w @
    [\<lparr>req_method = m, req_url = url, req_headers = dict_update (sess_headers w) hs,
      req_data = encode_form form\<rparr>]"
  by (simp add: send_def Let_def)

lemma login_verify_extends:
  "\<exists>rest. sent (snd (login_verify srv utc_offset login_response w)) = sent w @ rest"
proof -
  define w1 where "w1 =
     (if str_in ''Javascript support is needed for this page'' (resp_text login_response)
      then
        (case handle_timezone_redirect srv utc_offset
                (emit (St_info ''Handling timezone redirect...'') w) of
           (timezone_handled, w') \<Rightarrow>
             if \<not> timezone_handled
             then emit (St_warning ''Timezone handling unsuccessful, but continuing...'') w'
             else w')
      else w)"
  have "\<exists>rest. sent w1 = sent w @ rest"
  proof (cases "str_in ''Javascript support is needed for this page'' (resp_text login_response)")
    case True
    obtain rest where "sent (snd (handle_timezone_redirect srv utc_offset
                (emit (St_info ''Handling timezone redirect...'') w))) = sent w @ rest"
      using handshake_extends [of srv utc_offset "emit (St_info ''Handling timezone redirect...'') w"]
      by auto
    then show ?thesis
      using True by (auto simp: w1_def split: prod.splits)
  next
    case False
    then show ?thesis by (simp add: w1_def)
  qed
  then obtain rest where rest: "sent w1 = sent w @ rest" by blast
  have "sent (snd (login_verify srv utc_offset login_response w))
          = sent (snd (send srv GET landing_url [] [] w1))"
    unfolding login_verify_def Let_def w1_def [symmetric]
    by (auto simp: login_error_def send_def Let_def split: sum.splits prod.splits)
  then show ?thesis
    using rest by (simp add: sent_send)
qed

lemma login_submit_extends:
  "\<exists>rest. sent (snd (login_submit srv utc_offset username password soup w)) =
     sent w @
       [\<lparr>req_method = POST, req_url = login_page_url,
         req_headers =
           dict_update (sess_headers w)
             [(''Content-Type'', ''application/x-www-form-urlencoded''),
              (''Origin'', ''https://www.bridgebase.com''),
              (''Referer'', login_page_url)],
         req_data = encode_form (login_form_data username password soup)\<rparr>] @ rest"
proof -
  define w5 where "w5 =
     update_headers
       [(''Content-Type'', ''application/x-www-form-urlencoded''),
        (''Origin'', ''https://www.bridgebase.com''),
        (''Referer'', login_page_url)]
       (log_login_fields soup w)"
  have keep: "sent w5 = sent w" "sess_headers w5 =
      dict_update (sess_headers w)
             [(''Content-Type'', ''application/x-www-form-urlencoded''),
              (''Origin'', ''https://www.bridgebase.com''),
              (''Referer'', login_page_url)]"
    by (simp_all add: w5_def log_login_fields_keeps)
  let ?rq = "\<lparr>req_method = POST, req_url = login_page_url,
         req_headers =
           dict_update (sess_headers w)
             [(''Content-Type'', ''application/x-www-form-urlencoded''),
              (''Origin'', ''https://www.bridgebase.com''),
              (''Referer'', login_page_url)],
         req_data = encode_form (login_form_data username password soup)\<rparr>"
  have snd_send: "snd (send srv POST login_page_url [] (login_form_data username password soup) w5)
                    = w5\<lparr>sent := sent w @ [?rq]\<rparr>"
    using keep by (simp add: send_def Let_def)
  have unfold: "login_submit srv utc_offset username password soup w =
      (case send srv POST login_page_url [] (login_form_data username password soup) w5 of
           (Inl e, w6) \<Rightarrow> login_error w6
         | (Inr login_response, w6) \<Rightarrow> login_verify srv utc_offset login_response w6)"
    unfolding login_submit_def Let_def w5_def by simp
  show ?thesis
  proof (cases "fst (send srv POST login_page_url [] (login_form_data username password soup) w5)")
    case (Inl e)
    then have "login_submit srv utc_offset username password soup w
                 = login_error (w5\<lparr>sent := sent w @ [?rq]\<rparr>)"
      using unfold snd_send by (simp split: prod.splits)
    then show ?thesis by (simp add: login_error_def)
  next
    case (Inr login_response)
    then have "login_submit srv utc_offset username password soup w
                 = login_verify srv utc_offset login_response (w5\<lparr>sent := sent w @ [?rq]\<rparr>)"
      using unfold snd_send by (simp split: prod.splits)
    then show ?thesis
      using login_verify_extends [of srv utc_offset login_response "w5\<lparr>sent := sent w @ [?rq]\<rparr>"]
      by auto
  qed
qed

lemma login_to_bbo_requests:
  assumes "srv (sent w @ [home_request w]) = Inr home_response"
    and "srv (sent w @ [home_request w, login_page_request w]) = Inr login_page_response"
  shows "\<exists>rest. sent (snd (login_to_bbo srv html_parser utc_offset username password w)) =
           sent w @ [home_request w, login_page_request w,
                     login_post_request w username password
                       (html_parser (resp_text login_page_response))] @ rest"
proof -
  let ?w4 = "w\<lparr>events := events w @
                 [St_info ''Initializing session...'', St_info ''Loading login form...''],
               sess_headers := login_headers w,
               sent := sent w @ [home_request w, login_page_request w]\<rparr>"
  have "login_to_bbo srv html_parser utc_offset username password w =
          login_submit srv utc_offset username password
            (html_parser (resp_text login_page_response)) ?w4"
    using assms
    by (simp add: login_to_bbo_def Let_def send_def emit_def update_headers_def
          home_request_def login_page_request_def login_headers_def)
  then show ?thesis
    using login_submit_extends [of srv utc_offset username password
            "html_parser (resp_text login_page_response)" ?w4]
    by (simp add: login_post_request_def)
qed

lemma distinct_dict_update:
  "distinct (map fst d) \<Longrightarrow> distinct (map fst (dict_update d other))"
proof (induction other arbitrary: d)
  case Nil
  then show ?case by (simp add: dict_update_def)
next
  case (Cons kv other)
  obtain k v where kv: "kv = (k, v)" by (cases kv)
  show ?case
    using Cons.IH [of "dict_set k v d"] Cons.prems kv
    by (simp add: dict_update_Cons distinct_dict_set)
qed

lemma distinct_login_form_data:
  "distinct (map fst (login_form_data username password soup))"
  by (simp add: login_form_data_def login_data_def distinct_dict_update)

lemma keys_encode_form: "fst ` set (encode_form d) \<subseteq> fst ` set d"
  by (induction d rule: encode_form.induct) auto

lemma map_of_encode_form:
  "distinct (map fst d) \<Longrightarrow>
     map_of (encode_form d) n =
       (case map_of d n of None \<Rightarrow> None | Some None \<Rightarrow> None | Some (Some v) \<Rightarrow> Some v)"
proof (induction d rule: encode_form.induct)
  case 1
  then show ?case by simp
next
  case (2 k form)
  have "map_of (encode_form form) k = None"
    using 2 keys_encode_form [of form] by (auto simp: map_of_eq_None_iff)
  moreover have "map_of form k = None"
    using 2 by (simp add: map_of_eq_None_iff)
  ultimately show ?case using 2 by simp
next
  case (3 k v form)
  then show ?case by simp
qed

lemma map_of_login_body:
  "map_of (encode_form (login_form_data username password soup)) n =
     (case map_of (discover_hidden_fields soup) n of
        Some None \<Rightarrow> None
      | Some (Some v) \<Rightarrow> Some v
      | None \<Rightarrow>
          if n = ''t'' then Some ''/myhands/index.php?''
          else if n = ''count'' then Some ''1''
          else if n = ''username'' then Some username
          else if n = ''password'' then Some password
          else if n = ''submit'' then Some ''Login''
          else if n = ''keep'' then Some ''on''
          else None)"
  by (simp add: map_of_encode_form [OF distinct_login_form_data] map_of_login_form_data
        map_of_add_required_fields login_base_def split: option.splits)

text \<open>
  C8, as the code has it. The hidden fields discovered are those of the hidden inputs of
  the form with a non-empty name, each with the \<^verbatim>\<open>value\<close> attribute of the last such
  input. Every discovered hidden field that has a value is in the submitted body with
  that value, \<^verbatim>\<open>t\<close> and \<^verbatim>\<open>count\<close> included; when \<^verbatim>\<open>t\<close> or \<^verbatim>\<open>count\<close> was not
  discovered, it is submitted with its default; the user name, the password, the submit
  marker and the stay-signed-in flag are submitted with the caller's values and the fixed
  markers when no hidden field of the same name was discovered; and this body is the form
  data of the third request of the login, the POST to the login page.
\<close>

theorem login_body_fields:
  "(dict_has n (discover_hidden_fields soup)
      \<longleftrightarrow> n \<noteq> [] \<and> (\<exists>inp \<in> set (hidden_inputs soup). attr inp ''name'' = Some n))
   \<and> (dict_has n (discover_hidden_fields soup)
        \<longrightarrow> map_of (discover_hidden_fields soup) n
              = Some (attr (last (filter (\<lambda>i. attr i ''name'' = Some n) (hidden_inputs soup)))
                        ''value''))
   \<and> (map_of (discover_hidden_fields soup) n = Some (Some v)
        \<longrightarrow> map_of (encode_form (login_form_data username password soup)) n = Some v)
   \<and> (\<not> dict_has ''t'' (discover_hidden_fields soup)
        \<longrightarrow> map_of (encode_form (login_form_data username password soup)) ''t''
              = Some ''/myhands/index.php?'')
   \<and> (\<not> dict_has ''count'' (discover_hidden_fields soup)
        \<longrightarrow> map_of (encode_form (login_form_data username password soup)) ''count''
              = Some ''1'')
   \<and> (\<not> dict_has ''username'' (discover_hidden_fields soup)
        \<longrightarrow> map_of (encode_form (login_form_data username password soup)) ''username''
              = Some username)
   \<and> (\<not> dict_has ''password'' (discover_hidden_fields soup)
        \<longrightarrow> map_of (encode_form (login_form_data username password soup)) ''password''
              = Some password)
   \<and> (\<not> dict_has ''submit'' (discover_hidden_fields soup)
        \<longrightarrow> map_of (encode_form (login_form_data username password soup)) ''submit''
              = Some ''Login'')
   \<and> (\<not> dict_has ''keep'' (discover_hidden_fields soup)
        \<longrightarrow> map_of (encode_form (login_form_data username password soup)) ''keep''
              = Some ''on'')
   \<and> (srv (sent w @ [home_request w]) = Inr home_response
        \<and> srv (sent w @ [home_request w, login_page_request w]) = Inr login_page_response
        \<longrightarrow> (\<exists>rest. sent (snd (login_to_bbo srv html_parser utc_offset username password w)) =
               sent w @ [home_request w, login_page_request w,
                         login_post_request w username password
                           (html_parser (resp_text login_page_response))] @ rest)
            \<and> req_method (login_post_request w username password
                             (html_parser (resp_text login_page_response))) = POST
            \<and> req_url (login_post_request w username password
                          (html_parser (resp_text login_page_response))) = login_page_url
            \<and> req_data (login_post_request w username password
                           (html_parser (resp_text login_page_response)))
                = encode_form (login_form_data username password
                                 (html_parser (resp_text login_page_response))))"
proof -
  let ?body = "encode_form (login_form_data username password soup)"
  let ?found = "discover_hidden_fields soup"
  let ?named = "filter (\<lambda>i. attr i ''name'' = Some n) (hidden_inputs soup)"
  have body: "\<And>k. map_of ?body k =
     (case map_of ?found k of
        Some None \<Rightarrow> None
      | Some (Some v) \<Rightarrow> Some v
      | None \<Rightarrow>
          if k = ''t'' then Some ''/myhands/index.php?''
          else if k = ''count'' then Some ''1''
          else if k = ''username'' then Some username
          else if k = ''password'' then Some password
          else if k = ''submit'' then Some ''Login''
          else if k = ''keep'' then Some ''on''
          else None)"
    by (rule map_of_login_body)
  have found: "map_of ?found n =
      (if n = [] \<or> ?named = [] then None else Some (attr (last ?named) ''value''))"
    by (simp add: discover_fold fold_hidden_last)
  have named: "?named \<noteq> [] \<longleftrightarrow> (\<exists>inp \<in> set (hidden_inputs soup). attr inp ''name'' = Some n)"
    by (auto simp: filter_empty_conv)
  have 1: "dict_has n ?found
      \<longleftrightarrow> n \<noteq> [] \<and> (\<exists>inp \<in> set (hidden_inputs soup). attr inp ''name'' = Some n)"
    using named by (auto simp: dict_has_map_of found)
  have 2: "map_of ?found n = Some (attr (last ?named) ''value'')" if "dict_has n ?found"
    using that by (simp add: dict_has_map_of found split: if_splits)
  have 3: "map_of ?body n = Some v" if "map_of ?found n = Some (Some v)"
    using that by (simp add: body)
  have 4: "map_of ?body ''t'' = Some ''/myhands/index.php?''" if "\<not> dict_has ''t'' ?found"
    using that by (simp add: body dict_has_map_of)
  have 5: "map_of ?body ''count'' = Some ''1''" if "\<not> dict_has ''count'' ?found"
    using that by (simp add: body dict_has_map_of)
  have 6: "map_of ?body ''username'' = Some username" if "\<not> dict_has ''username'' ?found"
    using that by (simp add: body dict_has_map_of)
  have 7: "map_of ?body ''password'' = Some password" if "\<not> dict_has ''password'' ?found"
    using that by (simp add: body dict_has_map_of)
  have 8: "map_of ?body ''submit'' = Some ''Login''" if "\<not> dict_has ''submit'' ?found"
    using that by (simp add: body dict_has_map_of)
  have 9: "map_of ?body ''keep'' = Some ''on''" if "\<not> dict_has ''keep'' ?found"
    using that by (simp add: body dict_has_map_of)
  have 10: "(\<exists>rest. sent (snd (login_to_bbo srv html_parser utc_offset username password w)) =
               sent w @ [home_request w, login_page_request w,
                         login_post_request w username password
                           (html_parser (resp_text login_page_response))] @ rest)
            \<and> req_method (login_post_request w username password
                             (html_parser (resp_text login_page_response))) = POST
            \<and> req_url (login_post_request w username password
                          (html_parser (resp_text login_page_response))) = login_page_url
            \<and> req_data (login_post_request w username password
                           (html_parser (resp_text login_page_response)))
                = encode_form (login_form_data username password
                                 (html_parser (resp_text login_page_response)))"
    if "srv (sent w @ [home_request w]) = Inr home_response
        \<and> srv (sent w @ [home_request w, login_page_request w]) = Inr login_page_response"
    using that login_to_bbo_requests [of srv w home_response login_page_response]
    by (simp add: login_post_request_def)
  show ?thesis
    using 1 2 3 4 5 6 7 8 9 10 by blast
qed

lemma login_sample_inputs:
  "hidden_inputs login_page_doc =
     [hidden_input [(''name'', ''t''), (''value'', ''/myhands/hands.php'')],
      hidden_input [(''name'', ''token''), (''value'', ''abc'')],
      hidden_input [(''name'', ''token''), (''value'', ''xyz'')],
      hidden_input [(''name'', ''flag'')],
      hidden_input [(''value'', ''unnamed'')]]"
  by (simp add: hidden_inputs_def find_attr_def find_all_attr_def find_all_def login_defs)

lemma login_sample_found:
  "discover_hidden_fields login_page_doc =
     [(''t'', Some ''/myhands/hands.php''), (''token'', Some ''xyz''), (''flag'', None)]"
  by (simp add: discover_fold login_sample_inputs add_hidden_field_def hidden_input_def)

lemma login_sample_replies:
  "login_server (sent fresh_world @ [home_request fresh_world])
     = Inr \<lparr>resp_url = home_url, resp_status = 200, resp_text = ''logout.php''\<rparr>"
  "login_server (sent fresh_world @ [home_request fresh_world, login_page_request fresh_world])
     = Inr \<lparr>resp_url = login_page_url, resp_status = 200, resp_text = ''<form>''\<rparr>"
  by (simp_all add: login_server_def fresh_world_def home_request_def login_page_request_def
        home_url_def login_page_url_def)

theorem login_body_fields_witness:
  "hidden_input [(''name'', ''token''), (''value'', ''xyz'')] \<in> set (hidden_inputs login_page_doc)
   \<and> dict_has ''token'' (discover_hidden_fields login_page_doc)
   \<and> map_of (discover_hidden_fields login_page_doc) ''token'' = Some (Some ''xyz'')
   \<and> map_of (encode_form (login_form_data ''alice'' ''secret'' login_page_doc)) ''token''
        = Some ''xyz''
   \<and> map_of (discover_hidden_fields login_page_doc) ''t'' = Some (Some ''/myhands/hands.php'')
   \<and> map_of (encode_form (login_form_data ''alice'' ''secret'' login_page_doc)) ''t''
        = Some ''/myhands/hands.php''
   \<and> \<not> dict_has ''count'' (discover_hidden_fields login_page_doc)
   \<and> map_of (encode_form (login_form_data ''alice'' ''secret'' login_page_doc)) ''count''
        = Some ''1''
   \<and> \<not> dict_has ''t'' (discover_hidden_fields doc_no_table)
   \<and> map_of (encode_form (login_form_data ''alice'' ''secret'' doc_no_table)) ''t''
        = Some ''/myhands/index.php?''
   \<and> \<not> dict_has ''username'' (discover_hidden_fields login_page_doc)
   \<and> map_of (encode_form (login_form_data ''alice'' ''secret'' login_page_doc)) ''username''
        = Some ''alice''
   \<and> \<not> dict_has ''password'' (discover_hidden_fields login_page_doc)
   \<and> map_of (encode_form (login_form_data ''alice'' ''secret'' login_page_doc)) ''password''
        = Some ''secret''
   \<and> \<not> dict_has ''submit'' (discover_hidden_fields login_page_doc)
   \<and> map_of (encode_form (login_form_data ''alice'' ''secret'' login_page_doc)) ''submit''
        = Some ''Login''
   \<and> \<not> dict_has ''keep'' (discover_hidden_fields login_page_doc)
   \<and> map_of (encode_form (login_form_data ''alice'' ''secret'' login_page_doc)) ''keep''
        = Some ''on''
   \<and> (\<exists>rest. sent (snd (login_to_bbo login_server login_parser 19800 ''alice'' ''secret''
                            fresh_world)) =
          sent fresh_world @
            [home_request fresh_world, login_page_request fresh_world,
             login_post_request fresh_world ''alice'' ''secret'' login_page_doc] @ rest)
   \<and> req_data (login_post_request fresh_world ''alice'' ''secret'' login_page_doc)
        = encode_form (login_form_data ''alice'' ''secret'' login_page_doc)"
proof -
  let ?inp = "hidden_input [(''name'', ''token''), (''value'', ''xyz'')]"
  let ?home = "\<lparr>resp_url = home_url, resp_status = 200, resp_text = ''logout.php''\<rparr>"
  let ?login = "\<lparr>resp_url = login_page_url, resp_status = 200, resp_text = ''<form>''\<rparr>"
  have a: "?inp \<in> set (hidden_inputs login_page_doc)"
    by (simp add: login_sample_inputs hidden_input_def)
  have a': "attr ?inp ''name'' = Some ''token''"
    by (simp add: hidden_input_def)
  have b: "map_of (discover_hidden_fields login_page_doc) ''token'' = Some (Some ''xyz'')"
    "map_of (discover_hidden_fields login_page_doc) ''t'' = Some (Some ''/myhands/hands.php'')"
    by (simp_all add: login_sample_found)
  have c: "\<not> dict_has ''count'' (discover_hidden_fields login_page_doc)"
    "\<not> dict_has ''username'' (discover_hidden_fields login_page_doc)"
    "\<not> dict_has ''password'' (discover_hidden_fields login_page_doc)"
    "\<not> dict_has ''submit'' (discover_hidden_fields login_page_doc)"
    "\<not> dict_has ''keep'' (discover_hidden_fields login_page_doc)"
    by (simp_all add: login_sample_found dict_has_def)
  have d: "\<not> dict_has ''t'' (discover_hidden_fields doc_no_table)"
    by (simp add: discover_hidden_fields_def hidden_inputs_def find_attr_def find_all_attr_def
          find_all_def doc_no_table_def dict_has_def)
  have e: "login_server (sent fresh_world @ [home_request fresh_world]) = Inr ?home
        \<and> login_server (sent fresh_world @ [home_request fresh_world, login_page_request fresh_world])
            = Inr ?login"
    by (simp add: login_sample_replies)
  have f: "login_parser (resp_text ?login) = login_page_doc"
    by (simp add: login_parser_def)
  note t1 = login_body_fields [of "''token''" login_page_doc "''xyz''" "''alice''" "''secret''"
              login_server fresh_world ?home ?login login_parser 19800]
  note t2 = login_body_fields [of "''t''" login_page_doc "''/myhands/hands.php''" "''alice''"
              "''secret''" login_server fresh_world ?home ?login login_parser 19800]
  note t3 = login_body_fields [of "''t''" doc_no_table "''/myhands/hands.php''" "''alice''"
              "''secret''" login_server fresh_world ?home ?login login_parser 19800]
  have g: "(\<exists>rest. sent (snd (login_to_bbo login_server login_parser 19800 ''alice'' ''secret''
                            fresh_world)) =
          sent fresh_world @
            [home_request fresh_world, login_page_request fresh_world,
             login_post_request fresh_world ''alice'' ''secret'' login_page_doc] @ rest)
      \<and> req_data (login_post_request fresh_world ''alice'' ''secret'' login_page_doc)
        = encode_form (login_form_data ''alice'' ''secret'' login_page_doc)"
    using t1 e f by simp
  have h: "dict_has ''token'' (discover_hidden_fields login_page_doc)"
    using t1 a a' by blast
  have i: "map_of (encode_form (login_form_data ''alice'' ''secret'' login_page_doc)) ''token''
             = Some ''xyz''"
    using t1 b(1) by blast
  have j: "map_of (encode_form (login_form_data ''alice'' ''secret'' login_page_doc)) ''t''
        = Some ''/myhands/hands.php''"
    using t2 b(2) by blast
  have k: "map_of (encode_form (login_form_data ''alice'' ''secret'' doc_no_table)) ''t''
        = Some ''/myhands/index.php?''"
    using t3 d by blast
  have l: "map_of (encode_form (login_form_data ''alice'' ''secret'' login_page_doc)) ''count''
             = Some ''1''"
    "map_of (encode_form (login_form_data ''alice'' ''secret'' login_page_doc)) ''username''
       = Some ''alice''"
    "map_of (encode_form (login_form_data ''alice'' ''secret'' login_page_doc)) ''password''
       = Some ''secret''"
    "map_of (encode_form (login_form_data ''alice'' ''secret'' login_page_doc)) ''submit''
       = Some ''Login''"
    "map_of (encode_form (login_form_data ''alice'' ''secret'' login_page_doc)) ''keep''
       = Some ''on''"
    using t1 c by blast+
  show ?thesis
    using a b c d g h i j k l by blast
qed

text \<open>
  A form with the hidden input \<^verbatim>\<open>username=mallory\<close>: the hidden fields are stored
  over the four fixed ones, so the login request submits \<^verbatim>\<open>mallory\<close> and the user
  name given by the caller is not in the body.
\<close>

lemma override_sample_body:
  "encode_form (login_form_data ''alice'' ''secret'' login_page_override)
     = [(''username'', ''mallory''), (''password'', ''secret''), (''submit'', ''Login''),
        (''keep'', ''on''), (''t'', ''/myhands/index.php?''), (''count'', ''1'')]"
  by (simp add: login_form_data_def login_data_def discover_hidden_fields_def hidden_inputs_def
        find_attr_def find_all_attr_def find_all_def login_page_override_def hidden_input_def
        add_hidden_field_def add_required_fields_def add_target_field_def add_count_field_def
        dict_has_def dict_update_def)

lemma override_sample_requests:
  "\<exists>rest. sent (snd (login_to_bbo login_server override_parser 19800 ''alice'' ''secret''
                       fresh_world)) =
     [home_request fresh_world, login_page_request fresh_world,
      login_post_request fresh_world ''alice'' ''secret'' login_page_override] @ rest"
  using login_to_bbo_requests [of login_server fresh_world _ _ override_parser 19800
          "''alice''" "''secret''", OF login_sample_replies]
  by (simp add: override_parser_def fresh_world_def)

theorem login_hidden_username_counterexample:
  "req_data (sent (snd (login_to_bbo login_server override_parser 19800 ''alice'' ''secret''
                          fresh_world)) ! 2)
     = [(''username'', ''mallory''), (''password'', ''secret''), (''submit'', ''Login''),
        (''keep'', ''on''), (''t'', ''/myhands/index.php?''), (''count'', ''1'')]"
proof -
  obtain rest where "sent (snd (login_to_bbo login_server override_parser 19800 ''alice''
                                  ''secret'' fresh_world)) =
     [home_request fresh_world, login_page_request fresh_world,
      login_post_request fresh_world ''alice'' ''secret'' login_page_override] @ rest"
    using override_sample_requests by blast
  then show ?thesis
    by (simp add: login_post_request_def override_sample_body)
qed

section \<open>Cookie text: the two formats and the fallback\<close>

lemma split_on_no_sep: "sep \<notin> set l \<Longrightarrow> split_on sep l = [l]"
  by (induction l) auto

lemma split_on_line: "sep \<notin> set l \<Longrightarrow> split_on sep (l @ sep # rest) = l # split_on sep rest"
  by (induction l) auto

lemma split_on_join_lines:
  "ls \<noteq> [] \<Longrightarrow> \<forall>l \<in> set ls. CHR 0x0A \<notin> set l \<Longrightarrow> split_on CHR 0x0A (join_lines ls) = ls"
proof (induction ls rule: join_lines.induct)
  case 1
  then show ?case by simp
next
  case (2 l)
  then show ?case by (simp add: split_on_no_sep)
next
  case (3 l l' ls)
  then show ?case by (simp add: split_on_line)
qed

lemma split_once_line: "sep \<notin> set n \<Longrightarrow> split_once sep (n @ sep # v) = (n, v)"
  by (simp add: split_once_def takeWhile_append dropWhile_append)

lemma add_line_cookie:
  "line_encodable p \<Longrightarrow> add_line (cookie_line p) d = store (JStr (fst p)) (JStr (snd p)) d"
  by (cases p) (simp add: add_line_def line_encodable_def cookie_line_def split_once_line)

lemma fold_add_line_cookies:
  "\<forall>p \<in> set pairs. line_encodable p \<Longrightarrow>
     fold add_line (map cookie_line pairs) d = store_pairs pairs d"
  by (induction pairs arbitrary: d) (simp_all add: store_pairs_def add_line_cookie)

lemma parse_lines_cookies:
  assumes "\<forall>p \<in> set pairs. line_encodable p"
  shows "parse_lines (join_lines (map cookie_line pairs)) = store_pairs pairs []"
proof (cases "pairs = []")
  case True
  then show ?thesis
    by (simp add: parse_lines_def add_line_def store_pairs_def)
next
  case False
  have "\<forall>l \<in> set (map cookie_line pairs). CHR 0x0A \<notin> set l"
    using assms by (auto simp: line_encodable_def cookie_line_def)
  then have "split_on CHR 0x0A (join_lines (map cookie_line pairs)) = map cookie_line pairs"
    using False by (simp add: split_on_join_lines)
  then show ?thesis
    using assms by (simp add: parse_lines_def fold_add_line_cookies)
qed

lemma cookies_from_list_entries:
  "list_all2 cookie_entry cs pairs \<Longrightarrow> cookies_from_list cs d = Inr (store_pairs pairs d)"
proof (induction cs pairs arbitrary: d rule: list_all2_induct)
  case Nil
  then show ?case by (simp add: store_pairs_def)
next
  case (Cons c p cs pairs)
  then show ?case by (simp add: cookie_entry_def store_pairs_def)
qed

lemma cookies_from_list_raises:
  "isl (cookies_from_list cs d) \<longleftrightarrow> (\<exists>c \<in> set cs. \<not> well_formed_cookie c)"
  by (induction cs arbitrary: d) (auto simp: well_formed_cookie_def split: sum.splits)

text \<open>
  C5. Structured parsing is attempted first: when decoding fails the result is the
  line-based parse of the text, and when the text decodes to a list whose elements carry
  string names and values the result is built from that list. For a list text and a line
  text that encode the same pairs (the line text being one on which decoding fails, and the
  pairs being writable in the line format), both parses return the same cookie dict.
\<close>

theorem cookie_formats_agree:
  "(json_loads cookie_text = None
      \<longrightarrow> parse_cookie_text json_loads cookie_text = Dict (parse_lines cookie_text))
   \<and> (json_loads list_text = Some (JArr cs) \<and> list_all2 cookie_entry cs pairs
      \<longrightarrow> parse_cookie_text json_loads list_text = Dict (store_pairs pairs []))
   \<and> (json_loads list_text = Some (JArr cs) \<and> list_all2 cookie_entry cs pairs
      \<and> line_text = join_lines (map cookie_line pairs) \<and> json_loads line_text = None
      \<and> (\<forall>p \<in> set pairs. line_encodable p)
      \<longrightarrow> parse_cookie_text json_loads list_text = parse_cookie_text json_loads line_text)"
proof (intro conjI impI)
  assume "json_loads cookie_text = None"
  then show "parse_cookie_text json_loads cookie_text = Dict (parse_lines cookie_text)"
    by (simp add: parse_cookie_text_def parse_structured_def)
next
  assume "json_loads list_text = Some (JArr cs) \<and> list_all2 cookie_entry cs pairs"
  then show "parse_cookie_text json_loads list_text = Dict (store_pairs pairs [])"
    using cookies_from_list_entries [of cs pairs "[]"]
    by (simp add: parse_cookie_text_def parse_structured_def)
next
  assume h: "json_loads list_text = Some (JArr cs) \<and> list_all2 cookie_entry cs pairs
      \<and> line_text = join_lines (map cookie_line pairs) \<and> json_loads line_text = None
      \<and> (\<forall>p \<in> set pairs. line_encodable p)"
  then have "parse_cookie_text json_loads list_text = Dict (store_pairs pairs [])"
    using cookies_from_list_entries [of cs pairs "[]"]
    by (simp add: parse_cookie_text_def parse_structured_def)
  moreover from h have "json_loads line_text = None" by blast
  then have "parse_cookie_text json_loads line_text = Dict (parse_lines line_text)"
    by (simp add: parse_cookie_text_def parse_structured_def)
  moreover have "parse_lines line_text = store_pairs pairs []"
    using h parse_lines_cookies by blast
  ultimately show "parse_cookie_text json_loads list_text = parse_cookie_text json_loads line_text"
    by simp
qed

lemma sample_loads_values:
  "sample_loads list_text_sample =
     Some (JArr [JObj [(''name'', JStr ''sid''), (''value'', JStr ''abc'')],
                 JObj [(''name'', JStr ''lang''), (''value'', JStr ''en''),
                       (''domain'', JStr ''.bridgebase.com'')]])"
  "sample_loads line_text_sample = None"
  "sample_loads object_text_sample = Some (JObj [(''sid'', JStr ''abc'')])"
  "sample_loads bad_list_text_sample = Some (JArr [JStr ''a=b''])"
  "sample_loads ''42'' = Some (JInt 42)"
  by (simp_all add: cookie_sample_defs)

theorem cookie_formats_agree_witness:
  "sample_loads line_text_sample = None
   \<and> list_all2 cookie_entry
        [JObj [(''name'', JStr ''sid''), (''value'', JStr ''abc'')],
         JObj [(''name'', JStr ''lang''), (''value'', JStr ''en''),
               (''domain'', JStr ''.bridgebase.com'')]]
        [(''sid'', ''abc''), (''lang'', ''en'')]
   \<and> line_text_sample = join_lines (map cookie_line [(''sid'', ''abc''), (''lang'', ''en'')])
   \<and> line_encodable (''sid'', ''abc'') \<and> line_encodable (''lang'', ''en'')
   \<and> parse_cookie_text sample_loads list_text_sample
        = Dict [(JStr ''sid'', JStr ''abc''), (JStr ''lang'', JStr ''en'')]
   \<and> parse_cookie_text sample_loads line_text_sample
        = Dict [(JStr ''sid'', JStr ''abc''), (JStr ''lang'', JStr ''en'')]"
proof -
  let ?cs = "[JObj [(''name'', JStr ''sid''), (''value'', JStr ''abc'')],
              JObj [(''name'', JStr ''lang''), (''value'', JStr ''en''),
                    (''domain'', JStr ''.bridgebase.com'')]]"
  let ?pairs = "[(''sid'', ''abc''), (''lang'', ''en'')]"
  have a: "list_all2 cookie_entry ?cs ?pairs"
    by (simp add: cookie_entry_def)
  have b: "line_text_sample = join_lines (map cookie_line ?pairs)"
    by (simp add: line_text_sample_def cookie_line_def)
  have c: "\<forall>p \<in> set ?pairs. line_encodable p"
    by (simp add: line_encodable_def cookie_line_def strip_def lstrip_def rstrip_def is_space_def)
  have d: "store_pairs ?pairs [] = [(JStr ''sid'', JStr ''abc''), (JStr ''lang'', JStr ''en'')]"
    by (simp add: store_pairs_def key_eq_def)
  note t = cookie_formats_agree [of sample_loads line_text_sample list_text_sample ?cs ?pairs
        line_text_sample]
  have e: "parse_cookie_text sample_loads list_text_sample
             = Dict [(JStr ''sid'', JStr ''abc''), (JStr ''lang'', JStr ''en'')]"
    using t a d sample_loads_values(1) by simp
  have "parse_cookie_text sample_loads list_text_sample
          = parse_cookie_text sample_loads line_text_sample"
    using t a b c sample_loads_values(1,2) by blast
  then have f: "parse_cookie_text sample_loads line_text_sample
             = Dict [(JStr ''sid'', JStr ''abc''), (JStr ''lang'', JStr ''en'')]"
    using e by simp
  show ?thesis
    using a b c e f sample_loads_values(2) by simp
qed

text \<open>
  C10, as the code has it. A text that decodes to a value other than a list is
  returned as decoded, whatever that value is, and the line parser is not consulted. The
  line parser is consulted exactly when the body of the \<^verbatim>\<open>try\<close> raises: when
  decoding fails, or when the text decodes to a list with an element on which the dict
  comprehension raises (not a dict, no \<^verbatim>\<open>name\<close> or \<^verbatim>\<open>value\<close> key, or an
  unhashable name).
\<close>

theorem parse_cookie_text_fallback:
  "(json_loads cookie_text = Some v \<and> \<not> is_list v
      \<longrightarrow> parse_structured json_loads cookie_text = Inr (Decoded v)
          \<and> parse_cookie_text json_loads cookie_text = Decoded v)
   \<and> (isl (parse_structured json_loads cookie_text)
        \<longleftrightarrow> json_loads cookie_text = None
            \<or> (\<exists>cs. json_loads cookie_text = Some (JArr cs)
                     \<and> (\<exists>c \<in> set cs. \<not> well_formed_cookie c)))
   \<and> (isl (parse_structured json_loads cookie_text)
        \<longrightarrow> parse_cookie_text json_loads cookie_text = Dict (parse_lines cookie_text))"
proof (intro conjI impI)
  assume h: "json_loads cookie_text = Some v \<and> \<not> is_list v"
  then show "parse_structured json_loads cookie_text = Inr (Decoded v)"
    by (cases v) (simp_all add: parse_structured_def is_list_def)
  then show "parse_cookie_text json_loads cookie_text = Decoded v"
    by (simp add: parse_cookie_text_def)
next
  show "isl (parse_structured json_loads cookie_text)
        \<longleftrightarrow> json_loads cookie_text = None
            \<or> (\<exists>cs. json_loads cookie_text = Some (JArr cs)
                     \<and> (\<exists>c \<in> set cs. \<not> well_formed_cookie c))"
  proof (cases "json_loads cookie_text")
    case None
    then show ?thesis by (simp add: parse_structured_def)
  next
    case (Some v)
    show ?thesis
    proof (cases v)
      case (JArr cs)
      then show ?thesis
        using Some cookies_from_list_raises [of cs "[]"]
        by (cases "cookies_from_list cs []") (simp_all add: parse_structured_def)
    qed (use Some in \<open>simp_all add: parse_structured_def\<close>)
  qed
next
  assume "isl (parse_structured json_loads cookie_text)"
  then show "parse_cookie_text json_loads cookie_text = Dict (parse_lines cookie_text)"
    by (cases "parse_structured json_loads cookie_text") (simp_all add: parse_cookie_text_def)
qed

theorem parse_cookie_text_fallback_witness:
  "sample_loads object_text_sample = Some (JObj [(''sid'', JStr ''abc'')])
   \<and> \<not> is_list (JObj [(''sid'', JStr ''abc'')])
   \<and> parse_cookie_text sample_loads object_text_sample = Decoded (JObj [(''sid'', JStr ''abc'')])
   \<and> sample_loads ''42'' = Some (JInt 42) \<and> \<not> is_list (JInt 42)
   \<and> \<not> isl (parse_structured sample_loads ''42'')
   \<and> parse_cookie_text sample_loads ''42'' = Decoded (JInt 42)
   \<and> isl (parse_structured sample_loads line_text_sample)
   \<and> parse_cookie_text sample_loads line_text_sample = Dict (parse_lines line_text_sample)"
proof -
  have a: "\<not> is_list (JObj [(''sid'', JStr ''abc'')])" "\<not> is_list (JInt 42)"
    by (simp_all add: is_list_def)
  show ?thesis
    using a sample_loads_values
      parse_cookie_text_fallback [of sample_loads object_text_sample "JObj [(''sid'', JStr ''abc'')]"]
      parse_cookie_text_fallback [of sample_loads "''42''" "JInt 42"]
      parse_cookie_text_fallback [of sample_loads line_text_sample]
    by simp
qed

text \<open>
  Decoding succeeds on the JSON list of one string, the comprehension raises on the
  string, and the result is the line-based parse of the text.
\<close>

theorem parse_cookie_text_fallback_counterexample:
  "sample_loads bad_list_text_sample = Some (JArr [JStr ''a=b''])
   \<and> parse_structured sample_loads bad_list_text_sample = Inl TypeError
   \<and> parse_cookie_text sample_loads bad_list_text_sample
        = Dict [(JStr (''['' @ quote @ ''a''), JStr (''b'' @ quote @ '']''))]"
  by (simp add: parse_cookie_text_def parse_structured_def sample_loads_values(4))
     (simp add: parse_lines_def add_line_def split_once_def strip_def lstrip_def rstrip_def
        is_space_def bad_list_text_sample_def quote_def)

end
